theory Spec2Isabelle
  imports Complex_Main "HOL-Library.Word" "HOL-Library.Multiset" "HOL-Library.Log_Nat"
begin

unbundle bit_operations_syntax

chapter \<open>beadmachine: a model of main.go\<close>

text \<open>
  The program reads an image, optionally filters and resizes it, maps every pixel to a
  bead colour (or copies it, with \<^verbatim>\<open>--nocolormatching\<close>), writes the result as a PNG and
  logs how many bead boards and beads are used. This theory embeds \<^verbatim>\<open>main.go\<close>: the
  functions \<^verbatim>\<open>startBeadMachine\<close>, \<^verbatim>\<open>process\<close>, \<^verbatim>\<open>calculateBeadUsage\<close> and
  \<^verbatim>\<open>calculateBeadBoardsNeeded\<close>. Functions of the repository that live in other files
  (\<^verbatim>\<open>readImageFile\<close>, \<^verbatim>\<open>applyFilters\<close>, \<^verbatim>\<open>processImage\<close>) and library calls with
  effects (\<^verbatim>\<open>imaging.Resize\<close>, \<^verbatim>\<open>os.Create\<close>) are parameters of the model, collected in
  the record \<open>env\<close>.
\<close>

section \<open>Go values\<close>

subsection \<open>Integers\<close>

text \<open>
  Go's \<^verbatim>\<open>int\<close> is a 64-bit two's complement integer on the platforms the program is
  built for. Command line values and counters are 64-bit words (\<open>sint\<close> reads them,
  \<open><s\<close> compares them as signed). Pixel coordinates and image dimensions are modelled
  as mathematical integers: an image held in memory has far fewer than \<open>2 ^ 60\<close> pixels
  in a row, so neither a coordinate nor eight times a coordinate wraps around.
\<close>

type_synonym go_int = "64 word"

subsection \<open>float64\<close>

text \<open>
  A finite \<^verbatim>\<open>float64\<close> is the rational number it denotes. An arithmetic operation
  computes the exact result and rounds it to the nearest number with a 53-bit
  significand, ties to the even significand (IEEE 754 binary64, the rounding Go uses).
  \<open>binaryExponent x\<close> is the exponent \<open>e\<close> with \<open>2 ^ e \<le> x < 2 ^ (e + 1)\<close> for
  positive \<open>x\<close>. The exponent range is not modelled: every value computed by this
  program from a 64-bit integer lies between \<open>2 ^ - 5\<close> and \<open>2 ^ 64\<close> in magnitude or is
  zero, far inside the normal range of binary64.
\<close>

definition roundHalfEven :: "rat \<Rightarrow> int" where
  "roundHalfEven q =
     (let f = \<lfloor>q\<rfloor>; r = q - of_int f
      in if r < 1 / 2 then f
         else if 1 / 2 < r then f + 1
         else if even f then f else f + 1)"

definition binaryExponent :: "rat \<Rightarrow> int" where
  "binaryExponent x =
     (if 1 \<le> x then bitlen \<lfloor>x\<rfloor> - 1
      else let k = bitlen \<lfloor>1 / x\<rfloor>
           in if x * 2 ^ nat (k - 1) = 1 then - (k - 1) else - k)"

definition round64 :: "rat \<Rightarrow> rat" where
  "round64 x =
     (if x = 0 then 0
      else let ulp = 2 powi (binaryExponent \<bar>x\<bar> - 52)
           in sgn x * of_int (roundHalfEven (\<bar>x\<bar> / ulp)) * ulp)"

text \<open>The conversion \<^verbatim>\<open>float64(i)\<close> and the operators \<^verbatim>\<open>/\<close>, \<^verbatim>\<open>+\<close>, \<^verbatim>\<open>*\<close> on float64.\<close>

definition float64_of_int :: "int \<Rightarrow> rat" where
  "float64_of_int i = round64 (of_int i)"

definition float64_div :: "rat \<Rightarrow> rat \<Rightarrow> rat" where
  "float64_div a b = round64 (a / b)"

definition float64_add :: "rat \<Rightarrow> rat \<Rightarrow> rat" where
  "float64_add a b = round64 (a + b)"

definition float64_mul :: "rat \<Rightarrow> rat \<Rightarrow> rat" where
  "float64_mul a b = round64 (a * b)"

text \<open>
  \<^verbatim>\<open>math.Floor\<close> is exact. The conversion \<^verbatim>\<open>int(f)\<close> discards the fraction (it
  truncates towards zero).
\<close>

definition math_Floor :: "rat \<Rightarrow> rat" where
  "math_Floor x = of_int \<lfloor>x\<rfloor>"

definition int_of_float64 :: "rat \<Rightarrow> int" where
  "int_of_float64 x = (if 0 \<le> x then \<lfloor>x\<rfloor> else \<lceil>x\<rceil>)"

text \<open>
  A command line value of type float64 can also be an infinity or not a number
  (\<^verbatim>\<open>--blur Inf\<close>); the filter settings are only handed on to \<^verbatim>\<open>applyFilters\<close>.
\<close>

datatype float64 = Finite rat | PosInf | NegInf | NaN

section \<open>calculateBeadBoardsNeeded (main.go, lines 288-293)\<close>

text \<open>
  \<^verbatim>\<open>
  func calculateBeadBoardsNeeded(dimension int) int {
      neededFloat := float64(dimension) / 29
      neededFloat = math.Floor(neededFloat + .5)
      return int(neededFloat) // round up
  }
  \<close>
\<close>

definition calculateBeadBoardsNeeded :: "int \<Rightarrow> int" where
  "calculateBeadBoardsNeeded dimension =
     (let neededFloat = float64_div (float64_of_int dimension) 29;
          neededFloat = math_Floor (float64_add neededFloat (1 / 2))
      in int_of_float64 neededFloat)"

section \<open>Images (Go packages image and image/color)\<close>

subsection \<open>Points and rectangles\<close>

record Point =
  X :: int
  Y :: int

record Rectangle =
  MinPt :: Point
  MaxPt :: Point

text \<open>\<^verbatim>\<open>image.Rect(x0, y0, x1, y1)\<close> for \<open>x0 \<le> x1\<close> and \<open>y0 \<le> y1\<close>.\<close>

definition mkRect :: "int \<Rightarrow> int \<Rightarrow> int \<Rightarrow> int \<Rightarrow> Rectangle" where
  "mkRect x0 y0 x1 y1 = \<lparr>MinPt = \<lparr>X = x0, Y = y0\<rparr>, MaxPt = \<lparr>X = x1, Y = y1\<rparr>\<rparr>"

definition Dx :: "Rectangle \<Rightarrow> int" where
  "Dx r = X (MaxPt r) - X (MinPt r)"

definition Dy :: "Rectangle \<Rightarrow> int" where
  "Dy r = Y (MaxPt r) - Y (MinPt r)"

text \<open>\<^verbatim>\<open>Point{x, y}.In(r)\<close>: the minimum is inside the rectangle, the maximum is not.\<close>

definition In :: "int \<Rightarrow> int \<Rightarrow> Rectangle \<Rightarrow> bool" where
  "In x y r \<longleftrightarrow> X (MinPt r) \<le> x \<and> x < X (MaxPt r) \<and> Y (MinPt r) \<le> y \<and> y < Y (MaxPt r)"

subsection \<open>Colours\<close>

text \<open>
  \<^verbatim>\<open>color.RGBA{R, G, B, A}\<close> is a struct of four bytes. A \<^verbatim>\<open>color.Color\<close> is an interface
  value: a dynamic type together with a value of that type. Two of the library's colour
  types are modelled: \<^verbatim>\<open>color.RGBA\<close> (channels premultiplied by alpha) and
  \<^verbatim>\<open>color.NRGBA\<close> (channels not premultiplied; what the PNG decoder and the imaging
  library produce). Equality of \<open>Color\<close> values is Go's \<^verbatim>\<open>==\<close> on interface values:
  the same dynamic type and the same four bytes.
\<close>

type_synonym rgba = "8 word \<times> 8 word \<times> 8 word \<times> 8 word"

datatype Color = RGBA rgba | NRGBA rgba

text \<open>
  The method \<^verbatim>\<open>RGBA()\<close> of the interface returns the alpha-premultiplied channels as
  16-bit values in a uint32. From the library source (image/color/color.go):
  \<^verbatim>\<open>
  func (c RGBA) RGBA() (r, g, b, a uint32) {
      r = uint32(c.R)
      r |= r << 8
      ...
  func (c NRGBA) RGBA() (r, g, b, a uint32) {
      r = uint32(c.R)
      r |= r << 8
      r *= uint32(c.A)
      r /= 0xff
      ...
      a = uint32(c.A)
      a |= a << 8
  \<close>
\<close>

definition widen :: "8 word \<Rightarrow> 32 word" where
  "widen c = (ucast c) OR (push_bit 8 (ucast c))"

fun Color_RGBA :: "Color \<Rightarrow> 32 word \<times> 32 word \<times> 32 word \<times> 32 word" where
  "Color_RGBA (RGBA (r, g, b, a)) = (widen r, widen g, widen b, widen a)"
| "Color_RGBA (NRGBA (r, g, b, a)) =
     (widen r * ucast a div 255, widen g * ucast a div 255, widen b * ucast a div 255, widen a)"

subsection \<open>Images\<close>

text \<open>
  An input image is any \<^verbatim>\<open>image.Image\<close>: its bounds and its \<^verbatim>\<open>At\<close> method.
  The output image is an \<^verbatim>\<open>*image.RGBA\<close>: a rectangle and the pixels stored for the
  points of the rectangle. \<^verbatim>\<open>image.NewRGBA\<close> allocates zeroed pixels and panics on a
  rectangle of negative width or height; \<^verbatim>\<open>SetRGBA\<close> ignores a point outside the
  rectangle; \<^verbatim>\<open>RGBAAt\<close> reads the zero colour there.
\<close>

record Image =
  Bounds :: Rectangle
  At :: "int \<Rightarrow> int \<Rightarrow> Color"

record RGBAImage =
  Rect :: Rectangle
  Pix :: "int \<times> int \<Rightarrow> rgba"

definition NewRGBA :: "Rectangle \<Rightarrow> RGBAImage option" where
  "NewRGBA r =
     (if Dx r < 0 \<or> Dy r < 0 then None
      else Some \<lparr>Rect = r, Pix = (\<lambda>p. (0, 0, 0, 0))\<rparr>)"

definition SetRGBA :: "RGBAImage \<Rightarrow> int \<Rightarrow> int \<Rightarrow> rgba \<Rightarrow> RGBAImage" where
  "SetRGBA p x y c = (if \<not> In x y (Rect p) then p else p\<lparr>Pix := (Pix p)((x, y) := c)\<rparr>)"

definition RGBAAt :: "RGBAImage \<Rightarrow> int \<Rightarrow> int \<Rightarrow> rgba" where
  "RGBAAt p x y = (if \<not> In x y (Rect p) then (0, 0, 0, 0) else Pix p (x, y))"

section \<open>The pixel copy of process (main.go, lines 226-234)\<close>

text \<open>
  \<^verbatim>\<open>
  r, g, b, _ := pixelColor.RGBA()
  pixelRGBA := color.RGBA{uint8(r), uint8(g), uint8(b), 255} // A 255 = no transparency
  \<close>
  The conversion \<^verbatim>\<open>uint8(r)\<close> keeps the low byte of the 32-bit value.
\<close>

definition pixelRGBA :: "Color \<Rightarrow> rgba" where
  "pixelRGBA pixelColor =
     (case Color_RGBA pixelColor of (r, g, b, a) \<Rightarrow> (ucast r, ucast g, ucast b, 255))"

text \<open>
  The inner loop \<^verbatim>\<open>for x := imageBounds.Min.X; x < imageBounds.Max.X; x++\<close>, started at
  \<open>x\<close>, and the outer loop over \<open>y\<close>, started at \<open>y\<close>.
\<close>

function copyRow :: "Image \<Rightarrow> Rectangle \<Rightarrow> int \<Rightarrow> int \<Rightarrow> RGBAImage \<Rightarrow> RGBAImage" where
  "copyRow inputImage imageBounds y x outputImage =
     (if x < X (MaxPt imageBounds)
      then copyRow inputImage imageBounds y (x + 1)
             (SetRGBA outputImage x y (pixelRGBA (At inputImage x y)))
      else outputImage)"
  by pat_completeness auto
termination
  by (relation "measure (\<lambda>(inputImage, imageBounds, y, x, outputImage).
                   nat (X (MaxPt imageBounds) - x))") auto

function copyRows :: "Image \<Rightarrow> Rectangle \<Rightarrow> int \<Rightarrow> RGBAImage \<Rightarrow> RGBAImage" where
  "copyRows inputImage imageBounds y outputImage =
     (if y < Y (MaxPt imageBounds)
      then copyRows inputImage imageBounds (y + 1)
             (copyRow inputImage imageBounds y (X (MinPt imageBounds)) outputImage)
      else outputImage)"
  by pat_completeness auto
termination
  by (relation "measure (\<lambda>(inputImage, imageBounds, y, outputImage).
                   nat (Y (MaxPt imageBounds) - y))") auto

declare copyRow.simps [simp del] copyRows.simps [simp del]

definition copyPixels :: "Image \<Rightarrow> Rectangle \<Rightarrow> RGBAImage \<Rightarrow> RGBAImage" where
  "copyPixels inputImage imageBounds outputImage =
     copyRows inputImage imageBounds (Y (MinPt imageBounds)) outputImage"

section \<open>The machine (main.go, type beadMachine and startBeadMachine)\<close>

subsection \<open>Colour-space configuration (package chromath)\<close>

text \<open>
  The library's named configurations. Only the values main.go refers to have a
  constructor of their own; every other value of the library is \<open>Other\<dots> n\<close>.
  A transformer is the tuple of arguments it was constructed with:
  \<^verbatim>\<open>NewLabTransformer(illuminant)\<close> and
  \<^verbatim>\<open>NewRGBTransformer(workingSpace, adaptation, illuminant, scaler, gamma, compander)\<close>.
\<close>

datatype IlluminantRef = IlluminantRefD50 | OtherIlluminantRef nat
datatype RGBSpace = SpaceSRGB | OtherRGBSpace nat
datatype Adaptation = AdaptationBradford | OtherAdaptation nat
datatype Scaler = Scaler8bClamping | OtherScaler nat
datatype Compander = OtherCompander nat

datatype LabTransformer = NewLabTransformer IlluminantRef

datatype RGBTransformer =
  NewRGBTransformer RGBSpace Adaptation IlluminantRef Scaler float64 "Compander option"

text \<open>\<^verbatim>\<open>chromath.Lab\<close> is a struct of three float64 values.\<close>

type_synonym Lab = "float64 \<times> float64 \<times> float64"

subsection \<open>The struct\<close>

text \<open>
  The fields of \<^verbatim>\<open>beadMachine\<close> in the order of the source. The logger is modelled by
  the list of events a function produces; the two locks and the channel
  \<^verbatim>\<open>beadStatsDone\<close> have no content of their own (the channel appears in the model of
  \<^verbatim>\<open>calculateBeadUsage\<close> as a counter of the signals sent on it).
\<close>

record beadMachine =
  colorMatchCache :: "Color \<rightharpoonup> string"
  rgbLabCache :: "Color \<rightharpoonup> Lab"
  labTransformer :: LabTransformer
  rgbTransformer :: RGBTransformer
  beadFillPixel :: rgba
  inputFileName :: string
  outputFileName :: string
  htmlFileName :: string
  paletteFileName :: string
  width :: go_int
  height :: go_int
  boardsWidth :: go_int
  boardsHeight :: go_int
  boardDimension :: go_int
  beadStyle :: bool
  translucent :: bool
  flourescent :: bool
  noColorMatching :: bool
  greyScale :: bool
  blur :: float64
  sharpen :: float64
  gamma :: float64
  contrast :: float64
  brightness :: float64

subsection \<open>The command line\<close>

text \<open>
  The values \<^verbatim>\<open>cmd.Flags().GetString("input")\<close>, ... that startBeadMachine reads, one
  field for each flag that main declares.
\<close>

record cmdFlags =
  flag_verbose :: bool
  flag_input :: string
  flag_output :: string
  flag_html :: string
  flag_palette :: string
  flag_width :: go_int
  flag_height :: go_int
  flag_boardswidth :: go_int
  flag_boardsheight :: go_int
  flag_boarddimension :: go_int
  flag_beadstyle :: bool
  flag_translucent :: bool
  flag_flourescent :: bool
  flag_nocolormatching :: bool
  flag_grey :: bool
  flag_blur :: float64
  flag_sharpen :: float64
  flag_gamma :: float64
  flag_contrast :: float64
  flag_brightness :: float64

text \<open>The defaults that main gives the flags (lines 73-100).\<close>

definition defaultFlags :: cmdFlags where
  "defaultFlags =
     \<lparr>flag_verbose = False, flag_input = '''', flag_output = '''', flag_html = '''',
      flag_palette = ''colors_hama.json'',
      flag_width = 0, flag_height = 0, flag_boardswidth = 0, flag_boardsheight = 0,
      flag_boarddimension = 20,
      flag_beadstyle = False, flag_translucent = False, flag_flourescent = False,
      flag_nocolormatching = False, flag_grey = False,
      flag_blur = Finite 0, flag_sharpen = Finite 0, flag_gamma = Finite 0,
      flag_contrast = Finite 0, flag_brightness = Finite 0\<rparr>"

text \<open>The struct literal of startBeadMachine (lines 138-171).\<close>

definition newBeadMachine :: "cmdFlags \<Rightarrow> beadMachine" where
  "newBeadMachine fl =
     \<lparr>colorMatchCache = Map.empty,
      rgbLabCache = Map.empty,
      labTransformer = NewLabTransformer IlluminantRefD50,
      rgbTransformer =
        NewRGBTransformer SpaceSRGB AdaptationBradford IlluminantRefD50 Scaler8bClamping
          (Finite 1) None,
      beadFillPixel = (225, 225, 225, 255),
      inputFileName = flag_input fl,
      outputFileName = flag_output fl,
      htmlFileName = flag_html fl,
      paletteFileName = flag_palette fl,
      width = flag_width fl,
      height = flag_height fl,
      boardsWidth = flag_boardswidth fl,
      boardsHeight = flag_boardsheight fl,
      boardDimension = flag_boarddimension fl,
      beadStyle = flag_beadstyle fl,
      translucent = flag_translucent fl,
      flourescent = flag_flourescent fl,
      noColorMatching = flag_nocolormatching fl,
      greyScale = flag_grey fl,
      blur = flag_blur fl,
      sharpen = flag_sharpen fl,
      gamma = flag_gamma fl,
      contrast = flag_contrast fl,
      brightness = flag_brightness fl\<rparr>"

subsection \<open>The caches\<close>





section \<open>process (main.go, lines 175-253)\<close>

subsection \<open>What a run does\<close>

text \<open>
  A run is observed as the list of its events: the log entries (message and fields), the
  call of the colour matching, the creation of the output file, the encoding of an image
  into it, and a panic of the runtime.
\<close>

datatype logval = IntVal int | FloatVal rat | StrVal string | ErrVal string | DurationVal

datatype event =
    LogInfo string "(string \<times> logval) list"
  | LogError string "(string \<times> logval) list"
  | HelpShown
  | ProcessImageCalled
  | FileCreated string
  | PngEncoded RGBAImage
  | FileClosed
  | Panic string

subsection \<open>The collaborators\<close>

text \<open>
  \<^item> \<open>readImageFile name\<close>: the decoded image or an error.
  \<^item> \<open>applyFilters m image\<close>: the filtered image.
  \<^item> \<open>imagingResize image w h\<close>: \<^verbatim>\<open>imaging.Resize(image, w, h, imaging.Lanczos)\<close>.
  \<^item> \<open>processImage m imageBounds inputImage outputImage paletteFileName\<close>: the colour
    matching. It writes pixels of the output image it is given and returns an error or
    nil: its result here is the pixel store of the output image afterwards and the error.
  \<^item> \<open>osCreate name\<close>: \<^verbatim>\<open>os.Create\<close>, \<open>None\<close> when the file was created, the error
    otherwise.
\<close>

record env =
  readImageFile :: "string \<Rightarrow> string + Image"
  applyFilters :: "beadMachine \<Rightarrow> Image \<Rightarrow> Image"
  imagingResize :: "Image \<Rightarrow> go_int \<Rightarrow> go_int \<Rightarrow> Image"
  processImage :: "beadMachine \<Rightarrow> Rectangle \<Rightarrow> Image \<Rightarrow> RGBAImage \<Rightarrow> string
                     \<Rightarrow> (int \<times> int \<Rightarrow> rgba) \<times> string option"
  osCreate :: "string \<Rightarrow> string option"

subsection \<open>Filtering and resizing (lines 182-204)\<close>

text \<open>
  \<^verbatim>\<open>
  newWidth := m.width
  if m.boardsWidth > 0 { newWidth = m.boardsWidth * m.boardDimension }
  \<close>
  and the same for the height; the product is a product of Go ints and wraps around.
\<close>

definition newWidth :: "beadMachine \<Rightarrow> go_int" where
  "newWidth m = (if 0 <s boardsWidth m then boardsWidth m * boardDimension m else width m)"

definition newHeight :: "beadMachine \<Rightarrow> go_int" where
  "newHeight m = (if 0 <s boardsHeight m then boardsHeight m * boardDimension m else height m)"

text \<open>
  The image, the value of \<^verbatim>\<open>imageBounds\<close> and the value of \<^verbatim>\<open>resized\<close> at line 205.
  The bounds are those of the image as it was read, unless the image is resized.
\<close>

definition prepareInput :: "env \<Rightarrow> beadMachine \<Rightarrow> Image \<Rightarrow> Image \<times> Rectangle \<times> bool" where
  "prepareInput E m inputImage =
     (let imageBounds = Bounds inputImage;
          inputImage = applyFilters E m inputImage
      in if 0 <s newWidth m \<or> 0 <s newHeight m
         then (let inputImage = imagingResize E inputImage (newWidth m) (newHeight m)
               in (inputImage, Bounds inputImage, True))
         else (inputImage, imageBounds, False))"

subsection \<open>The board report (lines 206-211)\<close>

definition boardReport :: "Rectangle \<Rightarrow> event list" where
  "boardReport imageBounds =
     [LogInfo ''Bead board used''
        [(''width'', IntVal (calculateBeadBoardsNeeded (Dx imageBounds))),
         (''height'', IntVal (calculateBeadBoardsNeeded (Dy imageBounds)))],
      LogInfo ''Bead board measurement in cm''
        [(''width'', FloatVal (float64_mul (float64_of_int (Dx imageBounds)) (1 / 2))),
         (''height'', FloatVal (float64_mul (float64_of_int (Dy imageBounds)) (1 / 2)))] ]"

subsection \<open>The output image (lines 213-224)\<close>

text \<open>
  \<^verbatim>\<open>
  beadModeImageBounds := imageBounds
  if m.beadStyle { // each pixel will be a bead of 8x8 pixel
      beadModeImageBounds.Max.X *= 8
      beadModeImageBounds.Max.Y *= 8
  }
  \<close>
\<close>

definition beadModeImageBounds :: "beadMachine \<Rightarrow> Rectangle \<Rightarrow> Rectangle" where
  "beadModeImageBounds m imageBounds =
     (if beadStyle m
      then imageBounds\<lparr>MaxPt := \<lparr>X = X (MaxPt imageBounds) * 8, Y = Y (MaxPt imageBounds) * 8\<rparr>\<rparr>
      else imageBounds)"

subsection \<open>Filling the output image (lines 226-243)\<close>

text \<open>
  The events of the step and the output image after it, or \<open>None\<close> when process returns
  from inside the step.
\<close>

definition fillOutput ::
  "env \<Rightarrow> beadMachine \<Rightarrow> Rectangle \<Rightarrow> Image \<Rightarrow> RGBAImage \<Rightarrow> event list \<times> RGBAImage option" where
  "fillOutput E m imageBounds inputImage outputImage =
     (if noColorMatching m
      then ([], Some (copyPixels inputImage imageBounds outputImage))
      else (case processImage E m imageBounds inputImage outputImage (paletteFileName m) of
              (pix, Some err) \<Rightarrow>
                ([ProcessImageCalled,
                  LogError ''Processing image failed'' [(''error'', ErrVal err)] ], None)
            | (pix, None) \<Rightarrow>
                ([ProcessImageCalled,
                  LogInfo ''Image processed'' [(''duration'', DurationVal)] ],
                 Some (outputImage\<lparr>Pix := pix\<rparr>))))"

subsection \<open>Writing the file (lines 245-252)\<close>

definition writeOutput :: "env \<Rightarrow> beadMachine \<Rightarrow> RGBAImage \<Rightarrow> event list" where
  "writeOutput E m outputImage =
     (case osCreate E (outputFileName m) of
        Some err \<Rightarrow> [LogError ''Opening output image file failed'' [(''error'', ErrVal err)] ]
      | None \<Rightarrow> [FileCreated (outputFileName m), PngEncoded outputImage, FileClosed])"

subsection \<open>The function\<close>

definition processDecoded :: "env \<Rightarrow> beadMachine \<Rightarrow> Image \<Rightarrow> event list" where
  "processDecoded E m decoded =
     (case prepareInput E m decoded of
        (inputImage, imageBounds, resized) \<Rightarrow>
          [LogInfo ''Image pixels''
             [(''width'', IntVal (Dx (Bounds decoded))), (''height'', IntVal (Dy (Bounds decoded)))] ]
          @ boardReport imageBounds
          @ (case NewRGBA (beadModeImageBounds m imageBounds) of
               None \<Rightarrow> [Panic ''image: NewRGBA Rectangle has huge or negative dimensions'']
             | Some outputImage \<Rightarrow>
                 (if resized \<or> beadStyle m
                  then [LogInfo ''Output image pixels''
                          [(''width'', IntVal (Dx imageBounds)), (''height'', IntVal (Dy imageBounds))] ]
                  else [])
                 @ (case fillOutput E m imageBounds inputImage outputImage of
                      (events, None) \<Rightarrow> events
                    | (events, Some outputImage) \<Rightarrow> events @ writeOutput E m outputImage)))"

definition process :: "env \<Rightarrow> beadMachine \<Rightarrow> event list" where
  "process E m =
     (case readImageFile E (inputFileName m) of
        Inl err \<Rightarrow> [LogError ''Reading image file failed'' [(''error'', ErrVal err)] ]
      | Inr decoded \<Rightarrow> processDecoded E m decoded)"


text \<open>The images a run encoded and the files it created.\<close>

fun encodedImages :: "event list \<Rightarrow> RGBAImage list" where
  "encodedImages [] = []"
| "encodedImages (PngEncoded img # evs) = img # encodedImages evs"
| "encodedImages (ev # evs) = encodedImages evs"

fun createdFiles :: "event list \<Rightarrow> string list" where
  "createdFiles [] = []"
| "createdFiles (FileCreated name # evs) = name # createdFiles evs"
| "createdFiles (ev # evs) = createdFiles evs"

text \<open>The fields of the entries \<^verbatim>\<open>"Bead board used"\<close> that a run logged.\<close>

fun boardsUsed :: "event list \<Rightarrow> (string \<times> logval) list list" where
  "boardsUsed [] = []"
| "boardsUsed (LogInfo msg kvs # evs) =
     (if msg = ''Bead board used'' then kvs # boardsUsed evs else boardsUsed evs)"
| "boardsUsed (ev # evs) = boardsUsed evs"

section \<open>calculateBeadUsage (main.go, lines 273-286)\<close>

subsection \<open>The table\<close>

text \<open>
  \<^verbatim>\<open>colorUsageCounts[beadName]++\<close>: reading a key that is absent from a Go map gives the
  zero value, and the incremented value is stored under the key. The counters are Go
  ints.
\<close>

definition incrUsage :: "(string \<rightharpoonup> go_int) \<Rightarrow> string \<Rightarrow> (string \<rightharpoonup> go_int)" where
  "incrUsage colorUsageCounts beadName =
     colorUsageCounts(beadName \<mapsto>
       (case colorUsageCounts beadName of None \<Rightarrow> 0 | Some c \<Rightarrow> c) + 1)"

text \<open>
  \<^verbatim>\<open>for beadName := range beadUsageChan { ... }\<close> on the values the channel delivers
  before it is closed, in the order they are received.
\<close>

fun consumeUsage :: "(string \<rightharpoonup> go_int) \<Rightarrow> string list \<Rightarrow> (string \<rightharpoonup> go_int)" where
  "consumeUsage colorUsageCounts [] = colorUsageCounts"
| "consumeUsage colorUsageCounts (beadName # rest) =
     consumeUsage (incrUsage colorUsageCounts beadName) rest"

text \<open>The table when the loop ends: the loop started on \<^verbatim>\<open>make(map[string]int)\<close>.\<close>

definition usageTable :: "string list \<Rightarrow> (string \<rightharpoonup> go_int)" where
  "usageTable received = consumeUsage Map.empty received"

subsection \<open>The goroutine and its channel\<close>

text \<open>
  calculateBeadUsage runs concurrently with the senders of the channel. The state holds
  the channel (the values sent and not yet received, and whether it was closed), the
  position of the goroutine, its table, the keys the second loop has not visited yet, its
  log and the number of signals sent on \<^verbatim>\<open>beadStatsDone\<close>. Two fields record the
  history: every value that was sent and every value that was received.
\<close>

datatype position = Receiving | Reporting | Returned

record usageState =
  pending :: "string list"
  chanClosed :: bool
  sent :: "string list"
  received :: "string list"
  position :: position
  colorUsageCounts :: "string \<rightharpoonup> go_int"
  unvisited :: "string set"
  logged :: "event list"
  doneSignals :: nat

definition usageStart :: usageState where
  "usageStart =
     \<lparr>pending = [], chanClosed = False, sent = [], received = [], position = Receiving,
      colorUsageCounts = Map.empty, unvisited = {}, logged = [], doneSignals = 0\<rparr>"

text \<open>
  The atomic steps. \<open>Send\<close> and \<open>Close\<close> are steps of the other goroutines (on a closed
  channel both panic: no step). The others are steps of calculateBeadUsage:
  \<^item> \<open>Receive\<close>: one iteration of the first loop, which takes the oldest pending value;
  \<^item> \<open>LeaveLoop\<close>: the first loop ends, which a range over a channel does only when the
    channel is closed and empty; the next statement logs the number of colours;
  \<^item> \<open>ReportColor k\<close>: one iteration of the second loop, for a key not visited yet (a
    range over a Go map visits every key once, in no fixed order);
  \<^item> \<open>SignalDone\<close>: the second loop is over and \<^verbatim>\<open>m.beadStatsDone <- struct{}{}\<close> runs.
\<close>

datatype action = Send string | Close | Receive | LeaveLoop | ReportColor string | SignalDone

definition colorsLog :: "(string \<rightharpoonup> go_int) \<Rightarrow> event" where
  "colorsLog t = LogInfo ''Bead colors'' [(''count'', IntVal (int (card (dom t))))]"

definition usedLog :: "(string \<rightharpoonup> go_int) \<Rightarrow> string \<Rightarrow> event" where
  "usedLog t usedColor =
     LogInfo ''Beads used''
       [(''color'', StrVal usedColor),
        (''count'', IntVal (case t usedColor of None \<Rightarrow> 0 | Some c \<Rightarrow> sint c))]"

fun usageStep :: "action \<Rightarrow> usageState \<Rightarrow> usageState option" where
  "usageStep (Send beadName) s =
     (if chanClosed s then None
      else Some (s\<lparr>pending := pending s @ [beadName], sent := sent s @ [beadName]\<rparr>))"
| "usageStep Close s =
     (if chanClosed s then None else Some (s\<lparr>chanClosed := True\<rparr>))"
| "usageStep Receive s =
     (case pending s of
        [] \<Rightarrow> None
      | beadName # rest \<Rightarrow>
          if position s = Receiving
          then Some (s\<lparr>pending := rest, received := received s @ [beadName],
                       colorUsageCounts := incrUsage (colorUsageCounts s) beadName\<rparr>)
          else None)"
| "usageStep LeaveLoop s =
     (if position s = Receiving \<and> pending s = [] \<and> chanClosed s
      then Some (s\<lparr>position := Reporting,
                   unvisited := dom (colorUsageCounts s),
                   logged := logged s @ [colorsLog (colorUsageCounts s)]\<rparr>)
      else None)"
| "usageStep (ReportColor usedColor) s =
     (if position s = Reporting \<and> usedColor \<in> unvisited s
      then Some (s\<lparr>unvisited := unvisited s - {usedColor},
                   logged := logged s @ [usedLog (colorUsageCounts s) usedColor]\<rparr>)
      else None)"
| "usageStep SignalDone s =
     (if position s = Reporting \<and> unvisited s = {}
      then Some (s\<lparr>position := Returned, doneSignals := doneSignals s + 1\<rparr>)
      else None)"

fun usageRun :: "action list \<Rightarrow> usageState \<Rightarrow> usageState option" where
  "usageRun [] s = Some s"
| "usageRun (a # as) s = (case usageStep a s of None \<Rightarrow> None | Some s' \<Rightarrow> usageRun as s')"

text \<open>
  What holds in every state of a run of the goroutine and its channel: the channel
  delivers in order, the table counts what was received, nothing is logged while the
  first loop runs, and the log is the number of colours followed by one entry for each
  key visited so far.
\<close>

definition reportOf :: "(string \<rightharpoonup> go_int) \<Rightarrow> string list \<Rightarrow> event list" where
  "reportOf t visited = colorsLog t # map (usedLog t) visited"

definition usageInv :: "usageState \<Rightarrow> bool" where
  "usageInv s \<longleftrightarrow>
     sent s = received s @ pending s
     \<and> colorUsageCounts s = usageTable (received s)
     \<and> (case position s of
          Receiving \<Rightarrow> logged s = [] \<and> doneSignals s = 0
        | Reporting \<Rightarrow>
            chanClosed s \<and> pending s = [] \<and> doneSignals s = 0
            \<and> unvisited s \<subseteq> dom (colorUsageCounts s)
            \<and> (\<exists>visited. logged s = reportOf (colorUsageCounts s) visited \<and> distinct visited
                   \<and> set visited = dom (colorUsageCounts s) - unvisited s)
        | Returned \<Rightarrow>
            chanClosed s \<and> pending s = [] \<and> doneSignals s = 1
            \<and> (\<exists>visited. logged s = reportOf (colorUsageCounts s) visited \<and> distinct visited
                   \<and> set visited = dom (colorUsageCounts s)))"

section \<open>Example runs\<close>

text \<open>
  A decoded PNG of one translucent pixel: the PNG decoder gives an image of
  \<^verbatim>\<open>color.NRGBA\<close> pixels with its origin at (0, 0).
\<close>

definition exampleImage :: Image where
  "exampleImage = \<lparr>Bounds = mkRect 0 0 1 1, At = (\<lambda>x y. NRGBA (200, 0, 0, 100))\<rparr>"

text \<open>
  Collaborators for the examples: one readable input file, no filter that changes a
  pixel, a resize that only sets the size, a colour matching that fails on every palette
  file but the default one and leaves the pixels alone, and a file system that creates
  every file with a name.
\<close>

definition exampleEnv :: env where
  "exampleEnv =
     \<lparr>readImageFile = (\<lambda>name. if name = ''in.png'' then Inr exampleImage
                               else Inl ''open: no such file or directory''),
      applyFilters = (\<lambda>m image. image),
      imagingResize = (\<lambda>image w h. image\<lparr>Bounds := mkRect 0 0 (sint w) (sint h)\<rparr>),
      processImage = (\<lambda>m imageBounds inputImage outputImage paletteFileName.
                         if paletteFileName = ''colors_hama.json'' then (Pix outputImage, None)
                         else (Pix outputImage, Some ''open: no such file or directory'')),
      osCreate = (\<lambda>name. if name = '''' then Some ''open: no such file or directory'' else None)\<rparr>"

text \<open>\<^verbatim>\<open>beadmachine -i in.png -o out.png\<close> with further flags.\<close>

definition exampleFlags :: cmdFlags where
  "exampleFlags = defaultFlags\<lparr>flag_input := ''in.png'', flag_output := ''out.png''\<rparr>"

definition copyFlags :: cmdFlags where
  "copyFlags = exampleFlags\<lparr>flag_nocolormatching := True\<rparr>"

definition copyBeadStyleFlags :: cmdFlags where
  "copyBeadStyleFlags = exampleFlags\<lparr>flag_nocolormatching := True, flag_beadstyle := True\<rparr>"

definition beadStyleFlags :: cmdFlags where
  "beadStyleFlags = exampleFlags\<lparr>flag_beadstyle := True\<rparr>"

definition missingInputFlags :: cmdFlags where
  "missingInputFlags = exampleFlags\<lparr>flag_input := ''missing.png''\<rparr>"

definition missingPaletteFlags :: cmdFlags where
  "missingPaletteFlags = exampleFlags\<lparr>flag_palette := ''missing.json''\<rparr>"

definition resizeFlags :: cmdFlags where
  "resizeFlags = exampleFlags\<lparr>flag_width := 58, flag_height := 15\<rparr>"

text \<open>
  A run of calculateBeadUsage next to the senders: three beads are counted, the channel is
  closed, the two colours are reported and the signal is sent.
\<close>

definition usageExample :: "action list" where
  "usageExample =
     [Send ''red'', Receive, Send ''blue'', Send ''red'', Receive, Receive, Close, LeaveLoop,
      ReportColor ''blue'', ReportColor ''red'', SignalDone]"

section \<open>Rounding\<close>

text \<open>The rounding of a float64 operation moves a value by at most half a unit in the last place.\<close>

lemma roundHalfEven_error: "\<bar>of_int (roundHalfEven q) - q\<bar> \<le> 1 / 2"
proof -
  define f where "f = \<lfloor>q\<rfloor>"
  have "of_int f \<le> q" "q < of_int f + 1"
    unfolding f_def by linarith+
  then show ?thesis
    unfolding roundHalfEven_def Let_def f_def [symmetric] by (auto simp: abs_if)
qed

lemma binaryExponent_bounds:
  assumes "0 < x"
  shows "2 powi (binaryExponent x) \<le> x" and "x < 2 powi (binaryExponent x + 1)"
proof -
  have "2 powi (binaryExponent x) \<le> x \<and> x < 2 powi (binaryExponent x + 1)"
  proof (cases "1 \<le> x")
    case True
    define n where "n = \<lfloor>x\<rfloor>"
    have n_pos: "0 < n"
      using True by (simp add: n_def)
    have len: "1 \<le> bitlen n"
      using n_pos by (simp add: bitlen_alt_def)
    have bnd: "2 ^ nat (bitlen n - 1) \<le> n" "n < 2 ^ nat (bitlen n)"
      using bitlen_bounds [OF n_pos] by auto
    have e: "binaryExponent x = bitlen n - 1"
      using True by (simp add: binaryExponent_def n_def)
    have "(2::rat) powi (bitlen n - 1) = of_int (2 ^ nat (bitlen n - 1))"
      using len by (simp add: power_int_def)
    also have "\<dots> \<le> of_int n"
      using bnd(1) by (simp only: of_int_le_iff)
    also have "\<dots> \<le> x"
      by (simp add: n_def)
    finally have lower: "2 powi (bitlen n - 1) \<le> x" .
    have "x < of_int (n + 1)"
      unfolding n_def of_int_add of_int_1 by linarith
    also have "\<dots> \<le> of_int (2 ^ nat (bitlen n))"
      using bnd(2) by (simp only: of_int_le_iff)
    also have "\<dots> = (2::rat) powi (bitlen n - 1 + 1)"
      using len by (simp add: power_int_def)
    finally have "x < 2 powi (bitlen n - 1 + 1)" .
    with lower e show ?thesis by simp
  next
    case False
    define y where "y = 1 / x"
    define n where "n = \<lfloor>y\<rfloor>"
    define k where "k = bitlen n"
    have y_gt: "1 < y"
      using assms False by (simp add: y_def)
    have x_y: "x = 1 / y"
      by (simp add: y_def)
    have n_pos: "0 < n"
      using y_gt by (simp add: n_def)
    have len: "1 \<le> k"
      using n_pos by (simp add: k_def bitlen_alt_def)
    have bnd: "2 ^ nat (k - 1) \<le> n" "n < 2 ^ nat k"
      using bitlen_bounds [OF n_pos] by (auto simp: k_def)
    have "(2::rat) ^ nat (k - 1) = of_int (2 ^ nat (k - 1))"
      by simp
    also have "\<dots> \<le> of_int n"
      using bnd(1) by (simp only: of_int_le_iff)
    also have "\<dots> \<le> y"
      by (simp add: n_def)
    finally have y_lower: "2 ^ nat (k - 1) \<le> y" .
    have "y < of_int (n + 1)"
      unfolding n_def of_int_add of_int_1 by linarith
    also have "\<dots> \<le> of_int (2 ^ nat k)"
      using bnd(2) by (simp only: of_int_le_iff)
    also have "\<dots> = (2::rat) ^ nat k"
      by simp
    finally have y_upper: "y < 2 ^ nat k" .
    have x_upper: "x \<le> 1 / 2 ^ nat (k - 1)"
      unfolding x_y using y_lower y_gt by (simp add: frac_le)
    have x_lower: "1 / 2 ^ nat k < x"
      unfolding x_y using y_upper y_gt by (simp add: frac_less2)
    have pk: "(2::rat) powi (- k) = 1 / 2 ^ nat k"
      using len by (simp add: power_int_def field_simps)
    have pk1: "(2::rat) powi (- (k - 1)) = 1 / 2 ^ nat (k - 1)"
      using len by (simp add: power_int_def field_simps)
    have pk2: "(2::rat) powi (- k + 1) = 1 / 2 ^ nat (k - 1)"
      using pk1 by (simp add: algebra_simps)
    have "(2::rat) powi (- (k - 1) + 1) = 2 powi (- (k - 1)) * 2"
      by (rule power_int_add_1) simp
    then have pk3: "(2::rat) powi (- (k - 1) + 1) = 2 * (1 / 2 ^ nat (k - 1))"
      unfolding pk1 by simp
    show ?thesis
    proof (cases "x * 2 ^ nat (k - 1) = 1")
      case True
      then have e: "binaryExponent x = - (k - 1)"
        using False by (simp add: binaryExponent_def Let_def y_def n_def k_def)
      have "x = 1 / 2 ^ nat (k - 1)"
        using True by (simp add: field_simps)
      then show ?thesis
        unfolding e pk1 pk3 using assms by (simp add: divide_strict_right_mono)
    next
      case neq: False
      then have e: "binaryExponent x = - k"
        using False by (simp add: binaryExponent_def Let_def y_def n_def k_def)
      have "x \<noteq> 1 / 2 ^ nat (k - 1)"
        using neq by (auto simp: field_simps)
      with x_upper have "x < 1 / 2 ^ nat (k - 1)"
        by simp
      with x_lower show ?thesis
        unfolding e pk pk2 by simp
    qed
  qed
  then show "2 powi (binaryExponent x) \<le> x" and "x < 2 powi (binaryExponent x + 1)"
    by simp_all
qed

lemma round64_error: "\<bar>round64 x - x\<bar> \<le> \<bar>x\<bar> / 2 ^ 53"
proof (cases "x = 0")
  case True
  then show ?thesis by (simp add: round64_def)
next
  case False
  define a where "a = \<bar>x\<bar>"
  define u :: rat where "u = 2 powi (binaryExponent a - 52)"
  define m where "m = roundHalfEven (a / u)"
  have a_pos: "0 < a"
    using False by (simp add: a_def)
  have u_pos: "0 < u"
    by (simp add: u_def)
  have u_eq: "u = 2 powi (binaryExponent a) / 2 ^ 52"
    by (simp add: u_def power_int_diff)
  have u_le: "u \<le> a / 2 ^ 52"
    unfolding u_eq using binaryExponent_bounds(1) [OF a_pos] by (simp add: divide_right_mono)
  have r: "round64 x = sgn x * of_int m * u"
    using False by (simp add: round64_def Let_def a_def u_def m_def)
  have x_eq: "x = sgn x * a"
    by (simp add: a_def abs_sgn mult.commute)
  have "round64 x - x = sgn x * (of_int m * u - a)"
    using r x_eq by (simp add: algebra_simps)
  then have "\<bar>round64 x - x\<bar> = \<bar>of_int m * u - a\<bar>"
    using False by (simp add: abs_mult abs_sgn_eq)
  also have "of_int m * u - a = (of_int m - a / u) * u"
    using u_pos by (simp add: field_simps)
  also have "\<bar>(of_int m - a / u) * u\<bar> = \<bar>of_int m - a / u\<bar> * u"
    using u_pos by (simp add: abs_mult)
  also have "\<dots> \<le> (1 / 2) * u"
    using roundHalfEven_error [of "a / u"] u_pos unfolding m_def
    by (intro mult_right_mono) auto
  also have "\<dots> \<le> (1 / 2) * (a / 2 ^ 52)"
    using u_le by simp
  also have "\<dots> = \<bar>x\<bar> / 2 ^ 53"
    by (simp add: a_def)
  finally show ?thesis .
qed


lemma half_up_fraction:
  fixes d :: int
  defines "v \<equiv> (of_int d :: rat) / 29 + 1 / 2"
  shows "\<lfloor>v\<rfloor> = (2 * d + 29) div 58"
    and "of_int \<lfloor>v\<rfloor> + 1 / 58 \<le> v"
    and "v \<le> of_int \<lfloor>v\<rfloor> + 57 / 58"
proof -
  define k where "k = 2 * d + 29"
  have v_eq: "v = of_int k / of_int 58"
    by (simp add: v_def k_def field_simps)
  show fl: "\<lfloor>v\<rfloor> = (2 * d + 29) div 58"
    unfolding v_eq floor_divide_of_int_eq by (simp add: k_def)
  have odd: "odd k"
    by (simp add: k_def)
  have r: "1 \<le> k mod 58" "k mod 58 \<le> 57"
    using odd by presburger+
  have "k = 58 * (k div 58) + k mod 58"
    by simp
  then have "(of_int k :: rat) = of_int (58 * (k div 58) + k mod 58)"
    by simp
  then have k_split: "(of_int k :: rat) = 58 * of_int (k div 58) + of_int (k mod 58)"
    by (simp only: of_int_add of_int_mult of_int_numeral)
  have r': "(1::rat) \<le> of_int (k mod 58)" "(of_int (k mod 58) :: rat) \<le> 57"
    using r by (simp_all only: flip: of_int_le_iff [where 'a = rat])
  have fk: "\<lfloor>v\<rfloor> = k div 58"
    using fl by (simp add: k_def)
  have v_split: "v = of_int (k div 58) + of_int (k mod 58) / 58"
    unfolding v_eq by (simp add: k_split)
  show "of_int \<lfloor>v\<rfloor> + 1 / 58 \<le> v"
    unfolding fk using v_split r' by linarith
  show "v \<le> of_int \<lfloor>v\<rfloor> + 57 / 58"
    unfolding fk using v_split r' by linarith
qed

lemma floor_of_close:
  fixes v z :: rat
  assumes "of_int n + 1 / 58 \<le> v" and "v \<le> of_int n + 57 / 58" and "\<bar>z - v\<bar> < 1 / 58"
  shows "\<lfloor>z\<rfloor> = n"
proof (rule floor_unique)
  show "of_int n \<le> z" using assms by linarith
  show "z < of_int n + 1" using assms by linarith
qed

lemma int_of_float64_floor: "int_of_float64 (math_Floor x) = \<lfloor>x\<rfloor>"
  by (simp add: int_of_float64_def math_Floor_def)

lemma relative_error_bound:
  fixes r x :: rat
  assumes "\<bar>r - x\<bar> \<le> \<bar>x\<bar> / 9007199254740992" and "\<bar>x\<bar> \<le> b"
    and "b / 9007199254740992 \<le> c"
  shows "\<bar>r - x\<bar> \<le> c"
proof -
  have "\<bar>x\<bar> / 9007199254740992 \<le> b / 9007199254740992"
    using assms(2) by (simp add: divide_right_mono)
  with assms(1,3) show ?thesis
    by (meson order_trans)
qed

lemma calculateBeadBoardsNeeded_error:
  fixes d :: int
  assumes "\<bar>d\<bar> \<le> 2 ^ 50"
  shows "\<bar>float64_add (float64_div (float64_of_int d) 29) (1 / 2) - (of_int d / 29 + 1 / 2)\<bar> < 1 / 58"
proof -
  define D :: rat where "D = of_int d"
  define a where "a = round64 D"
  define y where "y = round64 (a / 29)"
  define z where "z = round64 (y + 1 / 2)"
  have "\<bar>D\<bar> = of_int \<bar>d\<bar>"
    by (simp add: D_def)
  also have "\<dots> \<le> of_int (2 ^ 50)"
    using assms by (simp only: of_int_le_iff)
  finally have D: "\<bar>D\<bar> \<le> 1125899906842624"
    by simp
  have e1: "\<bar>a - D\<bar> \<le> \<bar>D\<bar> / 9007199254740992"
    using round64_error [of D] by (simp add: a_def)
  have e2: "\<bar>y - a / 29\<bar> \<le> \<bar>a / 29\<bar> / 9007199254740992"
    using round64_error [of "a / 29"] by (simp add: y_def)
  have e3: "\<bar>z - (y + 1 / 2)\<bar> \<le> \<bar>y + 1 / 2\<bar> / 9007199254740992"
    using round64_error [of "y + 1 / 2"] by (simp add: z_def)
  have a_bound: "\<bar>a\<bar> \<le> 1125899906842625"
    using D e1 by linarith
  have a29: "\<bar>a / 29\<bar> \<le> 38824134718712"
    using a_bound by (simp add: abs_divide)
  have d1: "\<bar>a / 29 - D / 29\<bar> \<le> 1 / 200"
    using D e1 by linarith
  have d2: "\<bar>y - a / 29\<bar> \<le> 1 / 200"
    using e2 a29 by (rule relative_error_bound) simp
  have y_bound: "\<bar>y + 1 / 2\<bar> \<le> 38824134718714"
    using a29 d2 by linarith
  have d3: "\<bar>z - (y + 1 / 2)\<bar> \<le> 1 / 200"
    using e3 y_bound by (rule relative_error_bound) simp
  have "\<bar>z - (D / 29 + 1 / 2)\<bar> < 1 / 58"
    using d1 d2 d3 by linarith
  then show ?thesis
    by (simp add: z_def y_def a_def D_def float64_add_def float64_div_def float64_of_int_def)
qed

text \<open>
  The model on known values of binary64: the double nearest to one tenth, ties going to
  the even significand above \<open>2 ^ 53\<close>, and \<open>0.1 + 0.2\<close>, which is not the double nearest
  to three tenths.
\<close>

lemma round64_examples:
  "round64 (1 / 10) = 3602879701896397 / 2 ^ 55"
  "round64 (2 ^ 53 + 1) = 2 ^ 53"
  "round64 (2 ^ 53 + 3) = 2 ^ 53 + 4"
  "float64_add (round64 (1 / 10)) (round64 (2 / 10)) = 5404319552844596 / 2 ^ 54"
  "round64 (3 / 10) = 5404319552844595 / 2 ^ 54"
  by code_simp+

lemma calculateBeadBoardsNeeded_examples:
  "calculateBeadBoardsNeeded 14 = 0"
  "calculateBeadBoardsNeeded 15 = 1"
  "calculateBeadBoardsNeeded 29 = 1"
  "calculateBeadBoardsNeeded 43 = 1"
  "calculateBeadBoardsNeeded 44 = 2"
  "calculateBeadBoardsNeeded 58 = 2"
  by code_simp+

text \<open>
  Where the bound of the next theorem comes from: a float64 has 53 bits, so for a value
  like \<open>2 ^ 62 + 12345\<close> already the conversion \<^verbatim>\<open>float64(dimension)\<close> rounds, and the
  result is off by 12. No image has such a dimension.
\<close>

lemma calculateBeadBoardsNeeded_beyond_precision:
  "calculateBeadBoardsNeeded (2 ^ 62 + 12345) = 159023655807841376"
  "\<lfloor>(of_int (2 ^ 62 + 12345) :: rat) / 29 + 1 / 2\<rfloor> = 159023655807841388"
  by code_simp+

text \<open>
  C2. For every dimension \<open>d\<close> of magnitude up to \<open>2 ^ 50\<close> (an image row of that many
  pixels does not fit in memory), calculateBeadBoardsNeeded returns \<open>d / 29\<close> rounded half
  up, \<open>\<lfloor>d / 29 + 1 / 2\<rfloor>\<close>, which is \<open>(2 * d + 29) div 58\<close>. This is not the
  ceiling of \<open>d / 29\<close>: whenever \<open>d\<close> leaves a remainder from 1 to 14 the result is one
  board less than the ceiling.
\<close>

theorem calculateBeadBoardsNeeded_rounds_half_up:
  fixes d :: int
  assumes "\<bar>d\<bar> \<le> 2 ^ 50"
  shows "calculateBeadBoardsNeeded d = \<lfloor>(of_int d :: rat) / 29 + 1 / 2\<rfloor>
         \<and> calculateBeadBoardsNeeded d = (2 * d + 29) div 58
         \<and> (1 \<le> d mod 29 \<and> d mod 29 \<le> 14 \<longrightarrow>
              calculateBeadBoardsNeeded d = \<lceil>(of_int d :: rat) / 29\<rceil> - 1)"
proof -
  define v :: rat where "v = of_int d / 29 + 1 / 2"
  define z where "z = float64_add (float64_div (float64_of_int d) 29) (1 / 2)"
  have close: "\<bar>z - v\<bar> < 1 / 58"
    unfolding z_def v_def using assms by (rule calculateBeadBoardsNeeded_error)
  have "\<lfloor>z\<rfloor> = \<lfloor>v\<rfloor>"
    using half_up_fraction(2,3) [of d] close unfolding v_def by (rule floor_of_close)
  moreover have "calculateBeadBoardsNeeded d = \<lfloor>z\<rfloor>"
    by (simp add: calculateBeadBoardsNeeded_def Let_def z_def int_of_float64_floor)
  ultimately have main: "calculateBeadBoardsNeeded d = \<lfloor>v\<rfloor>"
    by simp
  have int_form: "\<lfloor>v\<rfloor> = (2 * d + 29) div 58"
    unfolding v_def by (rule half_up_fraction(1))
  have ceil: "\<lceil>(of_int d :: rat) / 29\<rceil> = - ((- d) div 29)"
  proof -
    have "\<lceil>(of_int d :: rat) / of_int 29\<rceil> = - \<lfloor>of_int (- d) / (of_int 29 :: rat)\<rfloor>"
      by (simp add: ceiling_def)
    also have "\<dots> = - ((- d) div 29)"
      by (simp only: floor_divide_of_int_eq)
    finally show ?thesis by simp
  qed
  have below: "(2 * d + 29) div 58 = - ((- d) div 29) - 1"
    if r: "1 \<le> d mod 29 \<and> d mod 29 \<le> 14"
  proof -
    define q where "q = d div 29"
    define m where "m = d mod 29"
    have d_eq: "d = 29 * q + m"
      by (simp add: q_def m_def)
    have m: "1 \<le> m" "m \<le> 14"
      using r by (simp_all add: m_def)
    have up: "(2 * d + 29) div 58 = q"
    proof (rule int_div_pos_eq)
      show "2 * d + 29 = 58 * q + (2 * m + 29)" using d_eq by simp
      show "0 \<le> 2 * m + 29" using m by simp
      show "2 * m + 29 < 58" using m by simp
    qed
    have "(- d) div 29 = - q - 1"
    proof (rule int_div_pos_eq)
      show "- d = 29 * (- q - 1) + (29 - m)" using d_eq by simp
      show "0 \<le> 29 - m" using m by simp
      show "29 - m < 29" using m by simp
    qed
    with up show ?thesis
      by simp
  qed
  show ?thesis
    using main int_form ceil below by (simp add: v_def)
qed

theorem calculateBeadBoardsNeeded_rounds_half_up_witness:
  "\<bar>40 :: int\<bar> \<le> 2 ^ 50 \<and> calculateBeadBoardsNeeded 40 = 1 \<and> \<lceil>(of_int 40 :: rat) / 29\<rceil> = 2"
  using calculateBeadBoardsNeeded_rounds_half_up [of 40] by simp

section \<open>The pixel copy\<close>

lemma Rect_SetRGBA [simp]: "Rect (SetRGBA p x y c) = Rect p"
  by (simp add: SetRGBA_def)

lemma RGBAAt_SetRGBA:
  "RGBAAt (SetRGBA p x y c) px py =
     (if px = x \<and> py = y \<and> In x y (Rect p) then c else RGBAAt p px py)"
  by (auto simp: SetRGBA_def RGBAAt_def)

lemma Rect_copyRow [simp]: "Rect (copyRow inputImage b y x outputImage) = Rect outputImage"
proof (induction inputImage b y x outputImage rule: copyRow.induct)
  case (1 inputImage b y x outputImage)
  show ?case
  proof (cases "x < X (MaxPt b)")
    case True
    with "1.IH" show ?thesis
      by (subst copyRow.simps) simp
  next
    case False
    then show ?thesis
      by (subst copyRow.simps) simp
  qed
qed

lemma RGBAAt_copyRow:
  "RGBAAt (copyRow inputImage b y x outputImage) px py =
     (if py = y \<and> x \<le> px \<and> px < X (MaxPt b) \<and> In px py (Rect outputImage)
      then pixelRGBA (At inputImage px py)
      else RGBAAt outputImage px py)"
proof (induction inputImage b y x outputImage rule: copyRow.induct)
  case (1 inputImage b y x outputImage)
  show ?case
  proof (cases "x < X (MaxPt b)")
    case True
    have "copyRow inputImage b y x outputImage =
            copyRow inputImage b y (x + 1)
              (SetRGBA outputImage x y (pixelRGBA (At inputImage x y)))"
      using True by (subst copyRow.simps) simp
    then show ?thesis
      using "1.IH" [OF True] True by (cases "px = x") (auto simp: RGBAAt_SetRGBA)
  next
    case False
    have "copyRow inputImage b y x outputImage = outputImage"
      using False by (subst copyRow.simps) simp
    with False show ?thesis
      by auto
  qed
qed

lemma Rect_copyRows [simp]: "Rect (copyRows inputImage b y outputImage) = Rect outputImage"
proof (induction inputImage b y outputImage rule: copyRows.induct)
  case (1 inputImage b y outputImage)
  show ?case
  proof (cases "y < Y (MaxPt b)")
    case True
    with "1.IH" show ?thesis
      by (subst copyRows.simps) simp
  next
    case False
    then show ?thesis
      by (subst copyRows.simps) simp
  qed
qed

lemma RGBAAt_copyRows:
  "RGBAAt (copyRows inputImage b y outputImage) px py =
     (if y \<le> py \<and> py < Y (MaxPt b) \<and> X (MinPt b) \<le> px \<and> px < X (MaxPt b)
         \<and> In px py (Rect outputImage)
      then pixelRGBA (At inputImage px py)
      else RGBAAt outputImage px py)"
proof (induction inputImage b y outputImage rule: copyRows.induct)
  case (1 inputImage b y outputImage)
  show ?case
  proof (cases "y < Y (MaxPt b)")
    case True
    have "copyRows inputImage b y outputImage =
            copyRows inputImage b (y + 1) (copyRow inputImage b y (X (MinPt b)) outputImage)"
      using True by (subst copyRows.simps) simp
    then show ?thesis
      using "1.IH" [OF True] True by (cases "py = y") (auto simp: RGBAAt_copyRow)
  next
    case False
    have "copyRows inputImage b y outputImage = outputImage"
      using False by (subst copyRows.simps) simp
    with False show ?thesis
      by auto
  qed
qed

text \<open>
  The two loops write the converted pixel at every point that lies in the image bounds and
  in the rectangle of the output image, and leave every other pixel as it was.
\<close>

lemma Rect_copyPixels [simp]: "Rect (copyPixels inputImage b outputImage) = Rect outputImage"
  by (simp add: copyPixels_def)

lemma RGBAAt_copyPixels:
  "RGBAAt (copyPixels inputImage b outputImage) x y =
     (if In x y b \<and> In x y (Rect outputImage)
      then pixelRGBA (At inputImage x y)
      else RGBAAt outputImage x y)"
  by (auto simp: copyPixels_def RGBAAt_copyRows In_def)

lemma RGBAAt_NewRGBA: "NewRGBA r = Some p \<Longrightarrow> RGBAAt p x y = (0, 0, 0, 0)"
  by (auto simp: NewRGBA_def RGBAAt_def split: if_splits)

lemma Rect_NewRGBA: "NewRGBA r = Some p \<Longrightarrow> Rect p = r"
  by (auto simp: NewRGBA_def split: if_splits)

text \<open>
  The low byte of a widened channel is the channel; a \<^verbatim>\<open>color.RGBA\<close> pixel and an opaque
  \<^verbatim>\<open>color.NRGBA\<close> pixel are therefore copied with their channels as they are.
\<close>

lemma widen_low_byte: "ucast (widen c) = c"
  unfolding widen_def
  by (rule bit_word_eqI) (auto simp: bit_simps)

lemma widen_16: "take_bit 16 (widen c) = widen c"
  unfolding widen_def
  by (rule bit_word_eqI) (auto simp: bit_simps dest: bit_imp_le_length)

lemma unat_widen: "unat (widen c) < 65536"
proof -
  have "take_bit 16 (unat (widen c)) < 2 ^ 16"
    by (rule take_bit_nat_less_exp)
  then have "unat (take_bit 16 (widen c)) < 2 ^ 16"
    by (simp only: unsigned_take_bit_eq)
  then show ?thesis
    by (simp add: widen_16)
qed

lemma opaque_scale: "widen c * 255 div 255 = widen c"
proof -
  have "unat (widen c * 255) = unat (widen c) * 255"
    using unat_widen [of c] by (simp add: unat_word_ariths)
  then have "unat (widen c * 255 div 255) = unat (widen c)"
    by (simp add: unat_div)
  then show ?thesis
    by (simp only: word_unat_eq_iff)
qed

lemma pixelRGBA_RGBA: "pixelRGBA (RGBA (r, g, b, a)) = (r, g, b, 255)"
  by (simp add: pixelRGBA_def widen_low_byte)

lemma pixelRGBA_NRGBA_opaque: "pixelRGBA (NRGBA (r, g, b, 255)) = (r, g, b, 255)"
  by (simp add: pixelRGBA_def opaque_scale widen_low_byte)

section \<open>Runs of process\<close>

lemma example_machine_fields:
  "noColorMatching (newBeadMachine fl) = flag_nocolormatching fl"
  "beadStyle (newBeadMachine fl) = flag_beadstyle fl"
  "inputFileName (newBeadMachine fl) = flag_input fl"
  "outputFileName (newBeadMachine fl) = flag_output fl"
  "paletteFileName (newBeadMachine fl) = flag_palette fl"
  "width (newBeadMachine fl) = flag_width fl"
  "height (newBeadMachine fl) = flag_height fl"
  "boardsWidth (newBeadMachine fl) = flag_boardswidth fl"
  "boardsHeight (newBeadMachine fl) = flag_boardsheight fl"
  "boardDimension (newBeadMachine fl) = flag_boarddimension fl"
  by (simp_all add: newBeadMachine_def)

lemma encodedImages_append [simp]:
  "encodedImages (xs @ ys) = encodedImages xs @ encodedImages ys"
  by (induction xs rule: encodedImages.induct) simp_all

lemma createdFiles_append [simp]:
  "createdFiles (xs @ ys) = createdFiles xs @ createdFiles ys"
  by (induction xs rule: createdFiles.induct) simp_all

lemma encodedImages_boardReport [simp]: "encodedImages (boardReport b) = []"
  by (simp add: boardReport_def)

lemma createdFiles_boardReport [simp]: "createdFiles (boardReport b) = []"
  by (simp add: boardReport_def)

lemma encodedImages_writeOutput:
  "encodedImages (writeOutput E m img) = (case osCreate E (outputFileName m) of None \<Rightarrow> [img] | Some err \<Rightarrow> [])"
  by (simp add: writeOutput_def split: option.split)

lemma createdFiles_writeOutput:
  "createdFiles (writeOutput E m img) = (case osCreate E (outputFileName m) of None \<Rightarrow> [outputFileName m] | Some err \<Rightarrow> [])"
  by (simp add: writeOutput_def split: option.split)

lemma encodedImages_fillOutput [simp]:
  "encodedImages (fst (fillOutput E m b i p)) = []"
  by (simp add: fillOutput_def split: prod.split option.split)

lemma createdFiles_fillOutput [simp]:
  "createdFiles (fst (fillOutput E m b i p)) = []"
  by (simp add: fillOutput_def split: prod.split option.split)

text \<open>The images a run encodes and the files it creates: at most the filled output image.\<close>

lemma encodedImages_process:
  assumes "readImageFile E (inputFileName m) = Inr decoded"
    and "prepareInput E m decoded = (inputImage, imageBounds, resized)"
  shows "encodedImages (process E m) =
           (case NewRGBA (beadModeImageBounds m imageBounds) of
              None \<Rightarrow> []
            | Some p \<Rightarrow>
                (case snd (fillOutput E m imageBounds inputImage p) of
                   None \<Rightarrow> []
                 | Some filled \<Rightarrow>
                     (case osCreate E (outputFileName m) of None \<Rightarrow> [filled] | Some err \<Rightarrow> [])))"
proof (cases "NewRGBA (beadModeImageBounds m imageBounds)")
  case None
  with assms show ?thesis
    by (simp add: process_def processDecoded_def)
next
  case (Some p)
  obtain evs r where fo: "fillOutput E m imageBounds inputImage p = (evs, r)"
    by (cases "fillOutput E m imageBounds inputImage p")
  have "encodedImages evs = []"
    using encodedImages_fillOutput [of E m imageBounds inputImage p] fo by simp
  with assms Some fo show ?thesis
    by (simp add: process_def processDecoded_def encodedImages_writeOutput split: option.split)
qed

lemma createdFiles_process:
  assumes "readImageFile E (inputFileName m) = Inr decoded"
    and "prepareInput E m decoded = (inputImage, imageBounds, resized)"
  shows "createdFiles (process E m) =
           (case NewRGBA (beadModeImageBounds m imageBounds) of
              None \<Rightarrow> []
            | Some p \<Rightarrow>
                (case snd (fillOutput E m imageBounds inputImage p) of
                   None \<Rightarrow> []
                 | Some filled \<Rightarrow>
                     (case osCreate E (outputFileName m) of
                        None \<Rightarrow> [outputFileName m] | Some err \<Rightarrow> [])))"
proof (cases "NewRGBA (beadModeImageBounds m imageBounds)")
  case None
  with assms show ?thesis
    by (simp add: process_def processDecoded_def)
next
  case (Some p)
  obtain evs r where fo: "fillOutput E m imageBounds inputImage p = (evs, r)"
    by (cases "fillOutput E m imageBounds inputImage p")
  have "createdFiles evs = []"
    using createdFiles_fillOutput [of E m imageBounds inputImage p] fo by simp
  with assms Some fo show ?thesis
    by (simp add: process_def processDecoded_def createdFiles_writeOutput split: option.split)
qed

lemma Rect_fillOutput:
  "snd (fillOutput E m b i p) = Some filled \<Longrightarrow> Rect filled = Rect p"
  by (auto simp: fillOutput_def split: if_splits prod.splits option.splits)


lemma encoded_image_of_run:
  assumes "readImageFile E (inputFileName m) = Inr decoded"
    and "prepareInput E m decoded = (inputImage, imageBounds, resized)"
    and "out \<in> set (encodedImages (process E m))"
  shows "\<exists>p. NewRGBA (beadModeImageBounds m imageBounds) = Some p
             \<and> snd (fillOutput E m imageBounds inputImage p) = Some out"
proof (cases "NewRGBA (beadModeImageBounds m imageBounds)")
  case None
  with assms(3) show ?thesis
    unfolding encodedImages_process [OF assms(1,2)] by simp
next
  case (Some p)
  show ?thesis
  proof (cases "snd (fillOutput E m imageBounds inputImage p)")
    case None
    with Some assms(3) show ?thesis
      unfolding encodedImages_process [OF assms(1,2)] by simp
  next
    case filled: (Some filled)
    with Some assms(3) have "out = filled"
      unfolding encodedImages_process [OF assms(1,2)] by (simp split: option.splits)
    with Some filled show ?thesis
      by simp
  qed
qed

lemma processImage_not_called:
  "noColorMatching m \<Longrightarrow> ProcessImageCalled \<notin> set (process E m)"
  by (auto simp: process_def processDecoded_def boardReport_def fillOutput_def writeOutput_def
           split: sum.splits prod.splits option.splits if_splits)

lemma boardsUsed_append [simp]: "boardsUsed (xs @ ys) = boardsUsed xs @ boardsUsed ys"
  by (induction xs rule: boardsUsed.induct) simp_all

lemma boardsUsed_fillOutput [simp]: "boardsUsed (fst (fillOutput E m b i p)) = []"
  by (simp add: fillOutput_def split: prod.split option.split)

lemma boardsUsed_writeOutput [simp]: "boardsUsed (writeOutput E m img) = []"
  by (simp add: writeOutput_def split: option.split)

lemma boardsUsed_process:
  assumes "readImageFile E (inputFileName m) = Inr decoded"
    and "prepareInput E m decoded = (inputImage, imageBounds, resized)"
  shows "boardsUsed (process E m) =
           [ [(''width'', IntVal (calculateBeadBoardsNeeded (Dx imageBounds))),
             (''height'', IntVal (calculateBeadBoardsNeeded (Dy imageBounds)))] ]"
proof (cases "NewRGBA (beadModeImageBounds m imageBounds)")
  case None
  with assms show ?thesis
    by (simp add: process_def processDecoded_def boardReport_def)
next
  case (Some p)
  obtain evs r where fo: "fillOutput E m imageBounds inputImage p = (evs, r)"
    by (cases "fillOutput E m imageBounds inputImage p")
  have "boardsUsed evs = []"
    using boardsUsed_fillOutput [of E m imageBounds inputImage p] fo by simp
  with assms Some fo show ?thesis
    by (simp add: process_def processDecoded_def boardReport_def split: option.split)
qed

lemma prepareInput_boardDimension:
  assumes "\<not> 0 <s boardsWidth m" and "\<not> 0 <s boardsHeight m"
    and "applyFilters E (m\<lparr>boardDimension := d\<rparr>) = applyFilters E m"
  shows "prepareInput E (m\<lparr>boardDimension := d\<rparr>) decoded = prepareInput E m decoded"
proof -
  have w: "newWidth (m\<lparr>boardDimension := d\<rparr>) = newWidth m"
    and h: "newHeight (m\<lparr>boardDimension := d\<rparr>) = newHeight m"
    using assms(1,2) by (simp_all add: newWidth_def newHeight_def)
  show ?thesis
    unfolding prepareInput_def w h assms(3) ..
qed

section \<open>Properties of the usage table\<close>

lemma consumeUsage_lookup:
  "consumeUsage t evs name =
     (if name \<in> set evs
      then Some ((case t name of None \<Rightarrow> 0 | Some c \<Rightarrow> c) + of_nat (count_list evs name))
      else t name)"
proof (induction evs arbitrary: t)
  case Nil
  show ?case by simp
next
  case (Cons e evs)
  show ?case
  proof (cases "e = name")
    case True
    then show ?thesis
      by (simp add: Cons.IH incrUsage_def split: option.split)
  next
    case False
    then show ?thesis
      by (simp add: Cons.IH incrUsage_def)
  qed
qed

lemma usageTable_lookup:
  "usageTable evs name =
     (if name \<in> set evs then Some (of_nat (count_list evs name)) else None)"
  by (simp add: usageTable_def consumeUsage_lookup)

lemma count_list_le_length: "count_list xs x \<le> length xs"
  by (induction xs) auto

lemma sint_small_count:
  assumes "n < 2 ^ 63"
  shows "sint (of_nat n :: go_int) = int n"
proof -
  have "int n < 2 ^ 63"
    using assms by (simp flip: of_nat_less_iff)
  then have "signed_take_bit 63 (int n) = int n"
    by (intro signed_take_bit_int_eq_self) auto
  then show ?thesis
    by (simp add: signed_of_nat)
qed

lemma count_list_mset: "count_list xs x = count (mset xs) x"
  by (induction xs) auto

section \<open>Runs of calculateBeadUsage\<close>

lemma consumeUsage_append:
  "consumeUsage t (xs @ ys) = consumeUsage (consumeUsage t xs) ys"
  by (induction xs arbitrary: t) simp_all

lemma usageTable_snoc: "usageTable (xs @ [x]) = incrUsage (usageTable xs) x"
  by (simp add: usageTable_def consumeUsage_append)

lemma dom_usageTable: "dom (usageTable evs) = set evs"
  by (auto simp: usageTable_lookup dom_def)

lemma usageInv_start: "usageInv usageStart"
  by (simp add: usageInv_def usageStart_def usageTable_def)

lemma usageStep_inv:
  assumes "usageInv s" and "usageStep a s = Some s'"
  shows "usageInv s'"
proof (cases a)
  case (Send beadName)
  with assms show ?thesis
    by (auto simp: usageInv_def split: if_splits position.splits)
next
  case Close
  with assms show ?thesis
    by (auto simp: usageInv_def split: if_splits position.splits)
next
  case Receive
  with assms show ?thesis
    by (auto simp: usageInv_def usageTable_snoc split: if_splits list.splits position.splits)
next
  case LeaveLoop
  with assms show ?thesis
    by (auto simp: usageInv_def reportOf_def split: if_splits position.splits)
next
  case (ReportColor usedColor)
  with assms have pos: "position s = Reporting" and k: "usedColor \<in> unvisited s"
    and s': "s' = s\<lparr>unvisited := unvisited s - {usedColor},
                     logged := logged s @ [usedLog (colorUsageCounts s) usedColor]\<rparr>"
    by (auto split: if_splits)
  from assms(1) pos obtain visited where
    v: "logged s = reportOf (colorUsageCounts s) visited" "distinct visited"
       "set visited = dom (colorUsageCounts s) - unvisited s"
    and sub: "unvisited s \<subseteq> dom (colorUsageCounts s)"
    by (auto simp: usageInv_def)
  have "logged s' = reportOf (colorUsageCounts s') (visited @ [usedColor])"
    using v(1) by (simp add: s' reportOf_def)
  moreover have "distinct (visited @ [usedColor])"
    using v(2,3) k by auto
  moreover have "set (visited @ [usedColor]) = dom (colorUsageCounts s') - unvisited s'"
    using v(3) k sub by (auto simp: s')
  ultimately have "\<exists>visited. logged s' = reportOf (colorUsageCounts s') visited \<and> distinct visited
                     \<and> set visited = dom (colorUsageCounts s') - unvisited s'"
    by blast
  moreover have "unvisited s' \<subseteq> dom (colorUsageCounts s')"
    using sub by (auto simp: s')
  ultimately show ?thesis
    using assms(1) pos by (simp add: usageInv_def s')
next
  case SignalDone
  with assms show ?thesis
    by (auto simp: usageInv_def split: if_splits position.splits)
qed

lemma usageRun_inv:
  "usageInv s \<Longrightarrow> usageRun acts s = Some s' \<Longrightarrow> usageInv s'"
proof (induction acts arbitrary: s)
  case Nil
  then show ?case by simp
next
  case (Cons a acts)
  then show ?case
    by (auto split: option.splits dest: usageStep_inv)
qed

lemma usageExample_run:
  "\<exists>s. usageRun usageExample usageStart = Some s \<and> logged s \<noteq> [] \<and> doneSignals s = 1
       \<and> sent s = [''red'', ''blue'', ''red'']"
  by (auto simp: usageExample_def usageStart_def incrUsage_def)

section \<open>Copying without colour matching\<close>

text \<open>
  C1. With \<^verbatim>\<open>noColorMatching\<close> the colour matching is never called
  (\<open>processImage_not_called\<close>), and the pixel written at a coordinate of the input bounds
  is \<open>pixelRGBA\<close> of the source pixel (\<open>RGBAAt_copyPixels\<close>), with alpha 255. For a
  \<^verbatim>\<open>color.RGBA\<close> pixel and for an opaque \<^verbatim>\<open>color.NRGBA\<close> pixel these are the source
  channels (\<open>pixelRGBA_RGBA\<close>, \<open>pixelRGBA_NRGBA_opaque\<close>). For a translucent pixel they are
  not: \<^verbatim>\<open>RGBA()\<close> returns 16-bit premultiplied channels and \<^verbatim>\<open>uint8(r)\<close> keeps the low
  byte, not the high one. The run below copies a PNG whose only pixel is
  \<^verbatim>\<open>NRGBA{200, 0, 0, 100}\<close>: \<open>200 * 257 * 100 div 255 = 20156 = 78 * 256 + 188\<close>, and the
  pixel that is encoded has the red channel 188, which is neither the channel of the
  source (200) nor its premultiplied value (78).
\<close>

theorem translucent_pixel_is_not_copied_verbatim:
  "At exampleImage 0 0 = NRGBA (200, 0, 0, 100)
   \<and> noColorMatching (newBeadMachine copyFlags)
   \<and> map (\<lambda>img. RGBAAt img 0 0) (encodedImages (process exampleEnv (newBeadMachine copyFlags)))
       = [(188, 0, 0, 255)]"
proof -
  let ?m = "newBeadMachine copyFlags"
  have rd: "readImageFile exampleEnv (inputFileName ?m) = Inr exampleImage"
    by (simp add: example_machine_fields copyFlags_def exampleFlags_def exampleEnv_def)
  have pr: "prepareInput exampleEnv ?m exampleImage = (exampleImage, mkRect 0 0 1 1, False)"
    by (simp add: prepareInput_def newWidth_def newHeight_def example_machine_fields
          copyFlags_def exampleFlags_def defaultFlags_def exampleEnv_def exampleImage_def)
  have px: "pixelRGBA (NRGBA (200, 0, 0, 100)) = (188, 0, 0, 255)"
    by (simp add: pixelRGBA_def widen_def)
  have "map (\<lambda>img. RGBAAt img 0 0) (encodedImages (process exampleEnv ?m)) = [(188, 0, 0, 255)]"
    unfolding encodedImages_process [OF rd pr]
    by (simp add: fillOutput_def NewRGBA_def beadModeImageBounds_def mkRect_def Dx_def Dy_def
          RGBAAt_copyPixels In_def px exampleImage_def
          example_machine_fields copyFlags_def exampleFlags_def defaultFlags_def exampleEnv_def)
  then show ?thesis
    by (simp add: exampleImage_def example_machine_fields copyFlags_def)
qed

section \<open>The size of the output image\<close>

text \<open>
  C6. In bead style the output image is allocated on the bounds of the input with the
  maximum multiplied by 8 in both axes; for an image with its origin at (0, 0), as the
  PNG and JPEG decoders and the imaging library produce, width and height are 8 times
  those of the input, and a 1x1 input gives an 8x8 output. The factor is the constant 8: the bounds
  depend on the machine through \<^verbatim>\<open>beadStyle\<close> only. The image that a run encodes has
  these bounds.
\<close>

theorem bead_style_enlarges_by_eight:
  "(beadStyle m \<longrightarrow>
      beadModeImageBounds m b =
        \<lparr>MinPt = MinPt b, MaxPt = \<lparr>X = 8 * X (MaxPt b), Y = 8 * Y (MaxPt b)\<rparr>\<rparr>)
   \<and> (beadStyle m \<longrightarrow> MinPt b = \<lparr>X = 0, Y = 0\<rparr> \<longrightarrow>
        Dx (beadModeImageBounds m b) = 8 * Dx b \<and> Dy (beadModeImageBounds m b) = 8 * Dy b)
   \<and> (beadStyle m \<longrightarrow> beadModeImageBounds m (mkRect 0 0 1 1) = mkRect 0 0 8 8)
   \<and> (beadStyle m' = beadStyle m \<longrightarrow> beadModeImageBounds m' b = beadModeImageBounds m b)
   \<and> (readImageFile E (inputFileName m) = Inr decoded \<longrightarrow>
        prepareInput E m decoded = (inputImage, imageBounds, resized) \<longrightarrow>
        out \<in> set (encodedImages (process E m)) \<longrightarrow>
        Rect out = beadModeImageBounds m imageBounds)"
proof (intro conjI impI)
  assume "beadStyle m"
  then show "beadModeImageBounds m b =
        \<lparr>MinPt = MinPt b, MaxPt = \<lparr>X = 8 * X (MaxPt b), Y = 8 * Y (MaxPt b)\<rparr>\<rparr>"
    by (simp add: beadModeImageBounds_def)
next
  assume "beadStyle m" and "MinPt b = \<lparr>X = 0, Y = 0\<rparr>"
  then show "Dx (beadModeImageBounds m b) = 8 * Dx b"
    by (simp add: beadModeImageBounds_def Dx_def)
next
  assume "beadStyle m" and "MinPt b = \<lparr>X = 0, Y = 0\<rparr>"
  then show "Dy (beadModeImageBounds m b) = 8 * Dy b"
    by (simp add: beadModeImageBounds_def Dy_def)
next
  assume "beadStyle m"
  then show "beadModeImageBounds m (mkRect 0 0 1 1) = mkRect 0 0 8 8"
    by (simp add: beadModeImageBounds_def mkRect_def)
next
  assume "beadStyle m' = beadStyle m"
  then show "beadModeImageBounds m' b = beadModeImageBounds m b"
    by (simp add: beadModeImageBounds_def)
next
  assume rd: "readImageFile E (inputFileName m) = Inr decoded"
    and pr: "prepareInput E m decoded = (inputImage, imageBounds, resized)"
    and out: "out \<in> set (encodedImages (process E m))"
  obtain p where p: "NewRGBA (beadModeImageBounds m imageBounds) = Some p"
    and filled: "snd (fillOutput E m imageBounds inputImage p) = Some out"
    using encoded_image_of_run [OF rd pr out] by blast
  have "Rect out = Rect p"
    using filled by (rule Rect_fillOutput)
  also have "\<dots> = beadModeImageBounds m imageBounds"
    using p by (rule Rect_NewRGBA)
  finally show "Rect out = beadModeImageBounds m imageBounds" .
qed

theorem bead_style_enlarges_by_eight_witness:
  "beadStyle (newBeadMachine beadStyleFlags)
   \<and> beadModeImageBounds (newBeadMachine beadStyleFlags) (mkRect 0 0 1 1) = mkRect 0 0 8 8
   \<and> Dx (beadModeImageBounds (newBeadMachine beadStyleFlags) (mkRect 0 0 1 1)) = 8
   \<and> Dy (beadModeImageBounds (newBeadMachine beadStyleFlags) (mkRect 0 0 1 1)) = 8
   \<and> beadModeImageBounds (newBeadMachine copyBeadStyleFlags) (mkRect 0 0 1 1)
       = beadModeImageBounds (newBeadMachine beadStyleFlags) (mkRect 0 0 1 1)
   \<and> length (encodedImages (process exampleEnv (newBeadMachine beadStyleFlags))) = 1
   \<and> Rect (hd (encodedImages (process exampleEnv (newBeadMachine beadStyleFlags)))) = mkRect 0 0 8 8"
proof -
  let ?m = "newBeadMachine beadStyleFlags"
  have bs: "beadStyle ?m" and bs': "beadStyle (newBeadMachine copyBeadStyleFlags) = beadStyle ?m"
    by (simp_all add: example_machine_fields beadStyleFlags_def copyBeadStyleFlags_def)
  have origin: "MinPt (mkRect 0 0 1 1) = \<lparr>X = 0, Y = 0\<rparr>"
    by (simp add: mkRect_def)
  have rd: "readImageFile exampleEnv (inputFileName ?m) = Inr exampleImage"
    by (simp add: example_machine_fields beadStyleFlags_def exampleFlags_def exampleEnv_def)
  have pr: "prepareInput exampleEnv ?m exampleImage = (exampleImage, mkRect 0 0 1 1, False)"
    by (simp add: prepareInput_def newWidth_def newHeight_def example_machine_fields
          beadStyleFlags_def exampleFlags_def defaultFlags_def exampleEnv_def exampleImage_def)
  have len: "length (encodedImages (process exampleEnv ?m)) = 1"
    unfolding encodedImages_process [OF rd pr]
    by (simp add: fillOutput_def NewRGBA_def beadModeImageBounds_def mkRect_def Dx_def Dy_def
          example_machine_fields beadStyleFlags_def exampleFlags_def defaultFlags_def exampleEnv_def)
  then have mem: "hd (encodedImages (process exampleEnv ?m)) \<in> set (encodedImages (process exampleEnv ?m))"
    by (cases "encodedImages (process exampleEnv ?m)") simp_all
  show ?thesis
    using bead_style_enlarges_by_eight
            [of ?m "mkRect 0 0 1 1" "newBeadMachine copyBeadStyleFlags" exampleEnv exampleImage
                exampleImage "mkRect 0 0 1 1" False "hd (encodedImages (process exampleEnv ?m))"]
          bs bs' origin rd pr len mem
    by (simp add: Dx_def Dy_def mkRect_def)
qed

section \<open>Failures\<close>

text \<open>
  C7. When reading the input image fails, the run consists of the one error entry. When
  the colour matching fails, the error entry is the last event of the run. In both cases
  no file is created and no image is encoded.
\<close>

theorem failure_creates_no_output_file:
  "(readImageFile E (inputFileName m) = Inl err \<longrightarrow>
      process E m = [LogError ''Reading image file failed'' [(''error'', ErrVal err)] ]
      \<and> createdFiles (process E m) = [] \<and> encodedImages (process E m) = [])
   \<and> (readImageFile E (inputFileName m) = Inr decoded \<longrightarrow>
        prepareInput E m decoded = (inputImage, imageBounds, resized) \<longrightarrow>
        NewRGBA (beadModeImageBounds m imageBounds) = Some outputImage \<longrightarrow>
        \<not> noColorMatching m \<longrightarrow>
        processImage E m imageBounds inputImage outputImage (paletteFileName m) = (pix, Some err') \<longrightarrow>
        last (process E m) = LogError ''Processing image failed'' [(''error'', ErrVal err')]
        \<and> createdFiles (process E m) = [] \<and> encodedImages (process E m) = [])"
proof (intro conjI impI)
  assume rd: "readImageFile E (inputFileName m) = Inl err"
  then show "process E m = [LogError ''Reading image file failed'' [(''error'', ErrVal err)] ]"
    by (simp add: process_def)
  then show "createdFiles (process E m) = []" and "encodedImages (process E m) = []"
    by simp_all
next
  assume rd: "readImageFile E (inputFileName m) = Inr decoded"
    and pr: "prepareInput E m decoded = (inputImage, imageBounds, resized)"
    and new: "NewRGBA (beadModeImageBounds m imageBounds) = Some outputImage"
    and matching: "\<not> noColorMatching m"
    and failed: "processImage E m imageBounds inputImage outputImage (paletteFileName m) = (pix, Some err')"
  have fo: "fillOutput E m imageBounds inputImage outputImage =
              ([ProcessImageCalled, LogError ''Processing image failed'' [(''error'', ErrVal err')] ], None)"
    using matching failed by (simp add: fillOutput_def)
  show "last (process E m) = LogError ''Processing image failed'' [(''error'', ErrVal err')]"
    using rd pr new fo by (simp add: process_def processDecoded_def boardReport_def)
  show "createdFiles (process E m) = []"
    unfolding createdFiles_process [OF rd pr] using new fo by simp
  show "encodedImages (process E m) = []"
    unfolding encodedImages_process [OF rd pr] using new fo by simp
qed

theorem failure_creates_no_output_file_witness:
  "process exampleEnv (newBeadMachine missingInputFlags)
     = [LogError ''Reading image file failed'' [(''error'', ErrVal ''open: no such file or directory'')] ]
   \<and> createdFiles (process exampleEnv (newBeadMachine missingInputFlags)) = []
   \<and> \<not> noColorMatching (newBeadMachine missingPaletteFlags)
   \<and> last (process exampleEnv (newBeadMachine missingPaletteFlags))
       = LogError ''Processing image failed'' [(''error'', ErrVal ''open: no such file or directory'')]
   \<and> createdFiles (process exampleEnv (newBeadMachine missingPaletteFlags)) = []
   \<and> encodedImages (process exampleEnv (newBeadMachine missingPaletteFlags)) = []
   \<and> createdFiles (process exampleEnv (newBeadMachine exampleFlags)) = [''out.png'']"
proof -
  let ?m = "newBeadMachine missingPaletteFlags"
  let ?n = "newBeadMachine missingInputFlags"
  let ?k = "newBeadMachine exampleFlags"
  let ?out = "\<lparr>Rect = mkRect 0 0 1 1, Pix = (\<lambda>p. (0, 0, 0, 0))\<rparr>"
  have rd0: "readImageFile exampleEnv (inputFileName ?n) = Inl ''open: no such file or directory''"
    by (simp add: example_machine_fields missingInputFlags_def exampleFlags_def exampleEnv_def)
  have rd: "readImageFile exampleEnv (inputFileName ?m) = Inr exampleImage"
    by (simp add: example_machine_fields missingPaletteFlags_def exampleFlags_def exampleEnv_def)
  have pr: "prepareInput exampleEnv ?m exampleImage = (exampleImage, mkRect 0 0 1 1, False)"
    by (simp add: prepareInput_def newWidth_def newHeight_def example_machine_fields
          missingPaletteFlags_def exampleFlags_def defaultFlags_def exampleEnv_def exampleImage_def)
  have new: "NewRGBA (beadModeImageBounds ?m (mkRect 0 0 1 1)) = Some ?out"
    by (simp add: NewRGBA_def beadModeImageBounds_def mkRect_def Dx_def Dy_def
          example_machine_fields missingPaletteFlags_def exampleFlags_def defaultFlags_def)
  have matching: "\<not> noColorMatching ?m"
    by (simp add: example_machine_fields missingPaletteFlags_def exampleFlags_def defaultFlags_def)
  have failed: "processImage exampleEnv ?m (mkRect 0 0 1 1) exampleImage ?out (paletteFileName ?m)
                  = (Pix ?out, Some ''open: no such file or directory'')"
    by (simp add: example_machine_fields missingPaletteFlags_def exampleFlags_def exampleEnv_def)
  have rdk: "readImageFile exampleEnv (inputFileName ?k) = Inr exampleImage"
    by (simp add: example_machine_fields exampleFlags_def exampleEnv_def)
  have prk: "prepareInput exampleEnv ?k exampleImage = (exampleImage, mkRect 0 0 1 1, False)"
    by (simp add: prepareInput_def newWidth_def newHeight_def example_machine_fields
          exampleFlags_def defaultFlags_def exampleEnv_def exampleImage_def)
  have ok: "createdFiles (process exampleEnv ?k) = [''out.png'']"
    unfolding createdFiles_process [OF rdk prk]
    by (simp add: fillOutput_def NewRGBA_def beadModeImageBounds_def mkRect_def Dx_def Dy_def
          example_machine_fields exampleFlags_def defaultFlags_def exampleEnv_def)
  show ?thesis
    using failure_creates_no_output_file
            [of exampleEnv ?n "''open: no such file or directory''"]
          failure_creates_no_output_file
            [of exampleEnv ?m _ exampleImage exampleImage "mkRect 0 0 1 1" False ?out "Pix ?out"
                "''open: no such file or directory''"]
          rd0 rd pr new matching failed ok
    by simp
qed

section \<open>The board report\<close>

text \<open>
  C10. The numbers of boards that a run reports are calculateBeadBoardsNeeded of the
  width and height in pixels of the image after resizing, and nothing else: two runs
  whose images have the same pixel dimensions report the same numbers, whatever their
  settings. The machine's \<^verbatim>\<open>boardDimension\<close> enters a run only as a factor of the size
  to resize to: unless a size in boards is requested, a different board dimension leaves
  the report as it is.
\<close>

theorem boards_needed_depend_on_pixels_only:
  "(readImageFile E (inputFileName m) = Inr decoded \<longrightarrow>
      prepareInput E m decoded = (inputImage, imageBounds, resized) \<longrightarrow>
      boardsUsed (process E m) =
        [ [(''width'', IntVal (calculateBeadBoardsNeeded (Dx imageBounds))),
          (''height'', IntVal (calculateBeadBoardsNeeded (Dy imageBounds)))] ])
   \<and> (readImageFile E (inputFileName m) = Inr decoded \<longrightarrow>
        prepareInput E m decoded = (inputImage, imageBounds, resized) \<longrightarrow>
        readImageFile E' (inputFileName m') = Inr decoded' \<longrightarrow>
        prepareInput E' m' decoded' = (inputImage', imageBounds', resized') \<longrightarrow>
        Dx imageBounds' = Dx imageBounds \<longrightarrow> Dy imageBounds' = Dy imageBounds \<longrightarrow>
        boardsUsed (process E' m') = boardsUsed (process E m))
   \<and> (\<not> 0 <s boardsWidth m \<longrightarrow> \<not> 0 <s boardsHeight m \<longrightarrow>
        applyFilters E (m\<lparr>boardDimension := d\<rparr>) = applyFilters E m \<longrightarrow>
        boardsUsed (process E (m\<lparr>boardDimension := d\<rparr>)) = boardsUsed (process E m))"
proof (intro conjI impI)
  assume "readImageFile E (inputFileName m) = Inr decoded"
    and "prepareInput E m decoded = (inputImage, imageBounds, resized)"
  then show "boardsUsed (process E m) =
        [ [(''width'', IntVal (calculateBeadBoardsNeeded (Dx imageBounds))),
          (''height'', IntVal (calculateBeadBoardsNeeded (Dy imageBounds)))] ]"
    by (rule boardsUsed_process)
next
  assume rd: "readImageFile E (inputFileName m) = Inr decoded"
    and pr: "prepareInput E m decoded = (inputImage, imageBounds, resized)"
    and rd': "readImageFile E' (inputFileName m') = Inr decoded'"
    and pr': "prepareInput E' m' decoded' = (inputImage', imageBounds', resized')"
    and same: "Dx imageBounds' = Dx imageBounds" "Dy imageBounds' = Dy imageBounds"
  show "boardsUsed (process E' m') = boardsUsed (process E m)"
    unfolding boardsUsed_process [OF rd pr] boardsUsed_process [OF rd' pr'] using same by simp
next
  assume nb: "\<not> 0 <s boardsWidth m" "\<not> 0 <s boardsHeight m"
    and filt: "applyFilters E (m\<lparr>boardDimension := d\<rparr>) = applyFilters E m"
  let ?m' = "m\<lparr>boardDimension := d\<rparr>"
  show "boardsUsed (process E ?m') = boardsUsed (process E m)"
  proof (cases "readImageFile E (inputFileName m)")
    case (Inl err)
    then show ?thesis
      by (simp add: process_def)
  next
    case (Inr decoded)
    obtain i b r where pr: "prepareInput E m decoded = (i, b, r)"
      by (cases "prepareInput E m decoded")
    have pr': "prepareInput E ?m' decoded = (i, b, r)"
      using prepareInput_boardDimension [OF nb filt] pr by simp
    have rd': "readImageFile E (inputFileName ?m') = Inr decoded"
      using Inr by simp
    show ?thesis
      unfolding boardsUsed_process [OF Inr pr] boardsUsed_process [OF rd' pr'] by simp
  qed
qed

theorem boards_needed_depend_on_pixels_only_witness:
  "boardDimension (newBeadMachine resizeFlags) = 20
   \<and> boardsUsed (process exampleEnv (newBeadMachine resizeFlags))
       = [ [(''width'', IntVal 2), (''height'', IntVal 1)] ]
   \<and> boardsUsed (process exampleEnv ((newBeadMachine resizeFlags)\<lparr>boardDimension := 29\<rparr>))
       = boardsUsed (process exampleEnv (newBeadMachine resizeFlags))"
proof -
  let ?m = "newBeadMachine resizeFlags"
  let ?img = "exampleImage\<lparr>Bounds := mkRect 0 0 58 15\<rparr>"
  have rd: "readImageFile exampleEnv (inputFileName ?m) = Inr exampleImage"
    by (simp add: example_machine_fields resizeFlags_def exampleFlags_def exampleEnv_def)
  have pr: "prepareInput exampleEnv ?m exampleImage = (?img, mkRect 0 0 58 15, True)"
    by (simp add: prepareInput_def newWidth_def newHeight_def example_machine_fields
          resizeFlags_def exampleFlags_def defaultFlags_def exampleEnv_def word_sless_alt)
  have nb: "\<not> 0 <s boardsWidth ?m" "\<not> 0 <s boardsHeight ?m"
    by (simp_all add: example_machine_fields resizeFlags_def exampleFlags_def defaultFlags_def)
  have filt: "applyFilters exampleEnv (?m\<lparr>boardDimension := 29\<rparr>) = applyFilters exampleEnv ?m"
    by (simp add: exampleEnv_def)
  have dim: "boardDimension ?m = 20"
    by (simp add: example_machine_fields resizeFlags_def exampleFlags_def defaultFlags_def)
  show ?thesis
    using boards_needed_depend_on_pixels_only
            [of exampleEnv ?m exampleImage ?img "mkRect 0 0 58 15" True
                exampleEnv ?m exampleImage ?img "mkRect 0 0 58 15" True 29]
          rd pr nb filt dim
    by (simp add: Dx_def Dy_def mkRect_def calculateBeadBoardsNeeded_examples)
qed

section \<open>The colour-space configuration\<close>



section \<open>Copying in bead style\<close>

text \<open>
  C9. With \<^verbatim>\<open>noColorMatching\<close> and \<^verbatim>\<open>beadStyle\<close> both set, the image that is encoded has
  the bounds of the input with the maximum multiplied by 8, the copied pixels stand at
  the coordinates of the input image (not scaled), and every pixel outside the bounds of
  the input image has the zero value \<open>(0, 0, 0, 0)\<close>, transparent black.
\<close>

theorem copy_in_bead_style_leaves_rest_blank:
  assumes "noColorMatching m" and "beadStyle m"
    and "readImageFile E (inputFileName m) = Inr decoded"
    and "prepareInput E m decoded = (inputImage, imageBounds, resized)"
    and "out \<in> set (encodedImages (process E m))"
  shows "Rect out = \<lparr>MinPt = MinPt imageBounds,
                      MaxPt = \<lparr>X = 8 * X (MaxPt imageBounds), Y = 8 * Y (MaxPt imageBounds)\<rparr>\<rparr>
         \<and> (\<forall>x y. In x y imageBounds \<and> In x y (Rect out) \<longrightarrow>
                  RGBAAt out x y = pixelRGBA (At inputImage x y))
         \<and> (\<forall>x y. \<not> In x y imageBounds \<longrightarrow> RGBAAt out x y = (0, 0, 0, 0))"
proof -
  obtain p where p: "NewRGBA (beadModeImageBounds m imageBounds) = Some p"
    and filled: "snd (fillOutput E m imageBounds inputImage p) = Some out"
    using encoded_image_of_run [OF assms(3,4,5)] by blast
  have out: "out = copyPixels inputImage imageBounds p"
    using filled assms(1) by (simp add: fillOutput_def)
  have rect: "Rect p = beadModeImageBounds m imageBounds"
    using p by (rule Rect_NewRGBA)
  have blank: "RGBAAt p x y = (0, 0, 0, 0)" for x y
    using p by (rule RGBAAt_NewRGBA)
  have "Rect out = \<lparr>MinPt = MinPt imageBounds,
                      MaxPt = \<lparr>X = 8 * X (MaxPt imageBounds), Y = 8 * Y (MaxPt imageBounds)\<rparr>\<rparr>"
    using assms(2) by (simp add: out rect beadModeImageBounds_def)
  moreover have "\<forall>x y. In x y imageBounds \<and> In x y (Rect out) \<longrightarrow>
                  RGBAAt out x y = pixelRGBA (At inputImage x y)"
    by (simp add: out RGBAAt_copyPixels)
  moreover have "\<forall>x y. \<not> In x y imageBounds \<longrightarrow> RGBAAt out x y = (0, 0, 0, 0)"
    by (simp add: out RGBAAt_copyPixels blank)
  ultimately show ?thesis
    by simp
qed


theorem copy_in_bead_style_leaves_rest_blank_witness:
  "noColorMatching (newBeadMachine copyBeadStyleFlags)
   \<and> beadStyle (newBeadMachine copyBeadStyleFlags)
   \<and> length (encodedImages (process exampleEnv (newBeadMachine copyBeadStyleFlags))) = 1
   \<and> Rect (hd (encodedImages (process exampleEnv (newBeadMachine copyBeadStyleFlags)))) = mkRect 0 0 8 8
   \<and> RGBAAt (hd (encodedImages (process exampleEnv (newBeadMachine copyBeadStyleFlags)))) 1 0 = (0, 0, 0, 0)
   \<and> RGBAAt (hd (encodedImages (process exampleEnv (newBeadMachine copyBeadStyleFlags)))) 7 7 = (0, 0, 0, 0)"
proof -
  let ?m = "newBeadMachine copyBeadStyleFlags"
  have nm: "noColorMatching ?m" and bs: "beadStyle ?m"
    by (simp_all add: example_machine_fields copyBeadStyleFlags_def)
  have rd: "readImageFile exampleEnv (inputFileName ?m) = Inr exampleImage"
    by (simp add: example_machine_fields copyBeadStyleFlags_def exampleFlags_def exampleEnv_def)
  have pr: "prepareInput exampleEnv ?m exampleImage = (exampleImage, mkRect 0 0 1 1, False)"
    by (simp add: prepareInput_def newWidth_def newHeight_def example_machine_fields
          copyBeadStyleFlags_def exampleFlags_def defaultFlags_def exampleEnv_def exampleImage_def)
  have len: "length (encodedImages (process exampleEnv ?m)) = 1"
    unfolding encodedImages_process [OF rd pr]
    by (simp add: fillOutput_def NewRGBA_def beadModeImageBounds_def mkRect_def Dx_def Dy_def
          example_machine_fields copyBeadStyleFlags_def exampleFlags_def exampleEnv_def)
  then have mem: "hd (encodedImages (process exampleEnv ?m)) \<in> set (encodedImages (process exampleEnv ?m))"
    by (cases "encodedImages (process exampleEnv ?m)") simp_all
  show ?thesis
    using copy_in_bead_style_leaves_rest_blank [OF nm bs rd pr mem] nm bs len
    by (simp add: mkRect_def In_def)
qed

section \<open>The cache keys\<close>



section \<open>The usage table of a sequence of events\<close>

text \<open>
  C4. The table built from a finite sequence of bead names has, for each name occurring in
  the sequence, its number of occurrences (as a 64-bit counter, which reads as that number
  whenever the sequence is shorter than \<open>2 ^ 63\<close>), has no entry for a name that does not
  occur, and is the same for every permutation of the sequence.
\<close>

theorem usageTable_counts_occurrences:
  "(name \<in> set evs \<longrightarrow> usageTable evs name = Some (of_nat (count_list evs name)))
   \<and> (name \<in> set evs \<longrightarrow> length evs < 2 ^ 63 \<longrightarrow>
        (\<exists>c. usageTable evs name = Some c \<and> sint c = int (count_list evs name)))
   \<and> (name \<notin> set evs \<longrightarrow> usageTable evs name = None)
   \<and> (mset evs' = mset evs \<longrightarrow> usageTable evs' = usageTable evs)"
proof (intro conjI impI)
  assume "name \<in> set evs"
  then show "usageTable evs name = Some (of_nat (count_list evs name))"
    by (simp add: usageTable_lookup)
next
  assume in_evs: "name \<in> set evs" and short: "length evs < 2 ^ 63"
  have "count_list evs name < 2 ^ 63"
    using count_list_le_length [of evs name] short by linarith
  then have "sint (of_nat (count_list evs name) :: go_int) = int (count_list evs name)"
    by (rule sint_small_count)
  with in_evs show "\<exists>c. usageTable evs name = Some c \<and> sint c = int (count_list evs name)"
    by (simp add: usageTable_lookup)
next
  assume "name \<notin> set evs"
  then show "usageTable evs name = None"
    by (simp add: usageTable_lookup)
next
  assume perm: "mset evs' = mset evs"
  show "usageTable evs' = usageTable evs"
  proof
    fix n
    have "set evs' = set evs"
      using perm by (rule mset_eq_setD)
    moreover have "count_list evs' n = count_list evs n"
      using perm by (simp add: count_list_mset)
    ultimately show "usageTable evs' n = usageTable evs n"
      by (simp add: usageTable_lookup)
  qed
qed

theorem usageTable_counts_occurrences_witness:
  "usageTable [''red'', ''blue'', ''red'', ''red''] ''red'' = Some 3
   \<and> (\<exists>c. usageTable [''red'', ''blue'', ''red'', ''red''] ''red'' = Some c \<and> sint c = 3)
   \<and> usageTable [''red'', ''blue'', ''red'', ''red''] ''green'' = None
   \<and> usageTable [''blue'', ''red'', ''red'', ''red''] = usageTable [''red'', ''blue'', ''red'', ''red'']"
  using usageTable_counts_occurrences
          [of "''red''" "[''red'', ''blue'', ''red'', ''red'']" "[''blue'', ''red'', ''red'', ''red'']"]
        usageTable_counts_occurrences
          [of "''green''" "[''red'', ''blue'', ''red'', ''red'']" "[''blue'', ''red'', ''red'', ''red'']"]
  by simp

section \<open>When the usage is reported\<close>

text \<open>
  C5. In every state that calculateBeadUsage and the senders of its channel can reach,
  if anything has been logged then the channel is closed and empty, every value that was
  sent has been received and counted, and the log is the number of colours followed by
  entries of distinct colours of the final table; if the signal on \<^verbatim>\<open>beadStatsDone\<close> has
  been sent, it was sent once and the log has an entry for every colour of the table.
\<close>

theorem report_only_after_stream_is_drained:
  assumes "usageRun acts usageStart = Some s"
  shows "(logged s \<noteq> [] \<longrightarrow>
            chanClosed s \<and> pending s = [] \<and> received s = sent s
            \<and> colorUsageCounts s = usageTable (sent s)
            \<and> (\<exists>visited. logged s = reportOf (usageTable (sent s)) visited
                   \<and> distinct visited \<and> set visited \<subseteq> set (sent s)))
         \<and> (0 < doneSignals s \<longrightarrow>
              doneSignals s = 1
              \<and> (\<exists>visited. logged s = reportOf (usageTable (sent s)) visited
                     \<and> distinct visited \<and> set visited = set (sent s)))"
proof -
  have inv: "usageInv s"
    using usageInv_start assms by (rule usageRun_inv)
  show ?thesis
  proof (cases "position s")
    case Receiving
    with inv show ?thesis
      by (simp add: usageInv_def)
  next
    case Reporting
    with inv show ?thesis
      by (auto simp: usageInv_def dom_usageTable)
  next
    case Returned
    with inv show ?thesis
      by (auto simp: usageInv_def dom_usageTable)
  qed
qed


theorem report_only_after_stream_is_drained_witness:
  "usageRun usageExample usageStart \<noteq> None
   \<and> logged (the (usageRun usageExample usageStart)) \<noteq> []
   \<and> chanClosed (the (usageRun usageExample usageStart))
   \<and> pending (the (usageRun usageExample usageStart)) = []
   \<and> colorUsageCounts (the (usageRun usageExample usageStart)) = usageTable [''red'', ''blue'', ''red'']
   \<and> doneSignals (the (usageRun usageExample usageStart)) = 1"
proof -
  obtain s where run: "usageRun usageExample usageStart = Some s"
    and s: "logged s \<noteq> []" "doneSignals s = 1" "sent s = [''red'', ''blue'', ''red'']"
    using usageExample_run by blast
  show ?thesis
    using report_only_after_stream_is_drained [OF run] run s by simp
qed

end
